theory Spec2Isabelle
  imports Main "HOL-Library.Word" "HOL-Library.Sublist"
begin

section \<open>Values of the JavaScript runtime\<close>

text \<open>
  A JavaScript string is modelled as a \<^typ>\<open>string\<close>; one \<^typ>\<open>char\<close> stands for one
  code unit. The value that \<^verbatim>\<open>JSON.parse\<close> returns is a \<open>json\<close>. An object is the list
  of its own properties (keys distinct). A number is given by the string that converts it
  (\<^verbatim>\<open>String(x)\<close>, which is \<^verbatim>\<open>0\<close> for both zeros); \<^verbatim>\<open>JSON.parse\<close> never
  returns NaN.
\<close>

datatype json =
    JNull
  | JBool bool
  | JNum string
  | JStr string
  | JArr "json list"
  | JObj "(string \<times> json) list"

text \<open>
  The primitives of the platform that the library calls and that are not part of the
  repository: \<^verbatim>\<open>JSON.parse\<close> (\<open>None\<close>: it throws a SyntaxError),
  \<^verbatim>\<open>JSON.stringify\<close>, \<^verbatim>\<open>encodeURIComponent\<close> (it throws only on a lone
  surrogate, which an 8-bit code unit cannot be), and the configured \<^verbatim>\<open>BASE_URL\<close> as
  it is rendered inside a template literal.
\<close>

record js =
  JSON_parse :: "string \<Rightarrow> json option"
  JSON_stringify :: "json \<Rightarrow> string"
  encodeURIComponent :: "string \<Rightarrow> string"
  BASE_URL :: string

text \<open>\<^verbatim>\<open>data?.name\<close>: the property of a parsed value; \<open>None\<close> is \<^verbatim>\<open>undefined\<close>.
  Only an object built by \<^verbatim>\<open>JSON.parse\<close> can own a property called \<^verbatim>\<open>error\<close> or
  \<^verbatim>\<open>message\<close>.\<close>

fun get_prop :: "json \<Rightarrow> string \<Rightarrow> json option" where
  "get_prop (JObj kvs) name = map_of kvs name"
| "get_prop _ name = None"

text \<open>Truthiness of a value in a condition (\<^verbatim>\<open>if (v)\<close>, \<^verbatim>\<open>v || w\<close>, \<^verbatim>\<open>!v\<close>);
  \<open>None\<close> is \<^verbatim>\<open>undefined\<close> or \<^verbatim>\<open>null\<close>.\<close>

fun truthy :: "json option \<Rightarrow> bool" where
  "truthy None = False"
| "truthy (Some JNull) = False"
| "truthy (Some (JBool b)) = b"
| "truthy (Some (JNum n)) = (n \<noteq> ''0'')"
| "truthy (Some (JStr s)) = (s \<noteq> [])"
| "truthy (Some (JArr xs)) = True"
| "truthy (Some (JObj kvs)) = True"

text \<open>
  The string conversion of a template literal \<^verbatim>\<open>`${v}`\<close>. \<open>None\<close>: the conversion throws
  a TypeError, which happens for an object that owns a (necessarily non-callable)
  \<^verbatim>\<open>toString\<close> property. An array joins its elements with commas, \<^verbatim>\<open>null\<close> elements
  being rendered empty.
\<close>

fun join_comma :: "string option list \<Rightarrow> string option" where
  "join_comma [] = Some []"
| "join_comma [x] = x"
| "join_comma (x # y # ys) =
     (case x of None \<Rightarrow> None
      | Some s \<Rightarrow> (case join_comma (y # ys) of None \<Rightarrow> None | Some t \<Rightarrow> Some (s @ '','' @ t)))"

fun ToString :: "json \<Rightarrow> string option" where
  "ToString JNull = Some ''null''"
| "ToString (JBool b) = Some (if b then ''true'' else ''false'')"
| "ToString (JNum n) = Some n"
| "ToString (JStr s) = Some s"
| "ToString (JArr xs) =
     join_comma (map (\<lambda>x. if x = JNull then Some [] else ToString x) xs)"
| "ToString (JObj kvs) =
     (if ''toString'' \<in> fst ` set kvs then None else Some ''[object Object]'')"

text \<open>The decimal rendering of a non-negative integer, as \<^verbatim>\<open>`${res.status}`\<close> gives it.\<close>

definition decimal_digit :: "nat \<Rightarrow> char" where
  "decimal_digit n = ''0123456789'' ! (n mod 10)"

fun decimal :: "nat \<Rightarrow> string" where
  "decimal n =
     (if n < 10 then [decimal_digit n]
      else decimal (n div 10) @ [decimal_digit n])"

declare decimal.simps [simp del]

section \<open>Exceptions, requests and responses\<close>

text \<open>
  What an \<^verbatim>\<open>async\<close> function rejects with: an \<^verbatim>\<open>Error\<close> object made by the library
  itself (\<^verbatim>\<open>new Error(msg)\<close>), or an exception object raised by a platform primitive
  (\<^verbatim>\<open>fetch\<close> on a network failure, a body reader). Both are objects.
\<close>

datatype exn = Error string | Rejected string

datatype http_method = GET | POST | PUT | PATCH | DELETE

text \<open>A multipart form holds one field: its name, the bytes of the blob, the file name.\<close>

datatype body = NoBody | TextBody string | FormBody string "8 word list" string

record request =
  http_method :: http_method
  url :: string
  headers :: "(string \<times> string) list"
  body :: body

text \<open>
  A response: its status line, the value of \<^verbatim>\<open>headers.get('content-type')\<close>, and what
  each body reader resolves to (\<open>Inl\<close>: the reader rejects). The library calls exactly one
  reader on a response.
\<close>

record response =
  status :: nat
  statusText :: string
  content_type :: "string option"
  body_text :: "exn + string"
  arrayBuffer :: "exn + 8 word list"
  blob :: "exn + 8 word list"

text \<open>\<^verbatim>\<open>res.ok\<close> is true exactly for a status in the range 200 to 299.\<close>

definition ok :: "response \<Rightarrow> bool" where
  "ok res = (200 \<le> status res \<and> status res \<le> 299)"

text \<open>
  \<^verbatim>\<open>fetch\<close> acts on the world (the network and the server behind it), of type \<open>'w\<close>:
  it returns the response or the exception, and the world after the request.
\<close>

type_synonym 'w fetch = "request \<Rightarrow> 'w \<Rightarrow> (exn + response) \<times> 'w"

section \<open>The library: \<^verbatim>\<open>src/lib/secretnotes.ts\<close>\<close>

text \<open>
  \<^verbatim>\<open>String.prototype.trim\<close> removes leading and trailing white space and line
  terminators; those that an 8-bit code unit can hold are TAB, LF, VT, FF, CR, SP and
  NBSP.
\<close>

definition isWhiteSpace :: "char \<Rightarrow> bool" where
  "isWhiteSpace c = ((of_char c :: nat) \<in> {9, 10, 11, 12, 13, 32, 160})"

definition trim :: "string \<Rightarrow> string" where
  "trim s = rev (dropWhile isWhiteSpace (rev (dropWhile isWhiteSpace s)))"

text \<open>The parameter is a string by its declared type, so \<^verbatim>\<open>p ?? ''\<close> is \<open>p\<close>.\<close>

definition normalizePhrase :: "string \<Rightarrow> string" where
  "normalizePhrase p = trim p"

definition DEFAULT_INIT_MESSAGE :: string where
  "DEFAULT_INIT_MESSAGE = ''Welcome to your new secure note!''"

text \<open>The status line \<^verbatim>\<open>`${res.status} ${res.statusText}`\<close>.\<close>

definition status_line :: "response \<Rightarrow> string" where
  "status_line res = decimal (status res) @ '' '' @ statusText res"

text \<open>
  The message of the Error thrown for a response that is not ok (lines 28 to 38). The
  \<^verbatim>\<open>try\<close> block covers the parse and both template literals, so a failing string
  conversion ends in the \<^verbatim>\<open>catch\<close> branch like a failing parse does.
\<close>

definition error_message :: "js \<Rightarrow> response \<Rightarrow> string \<Rightarrow> string" where
  "error_message js res text =
     (let msg = status_line res in
      if text \<noteq> [] then
        (case JSON_parse js text of
           None \<Rightarrow> msg @ '' - '' @ take 200 text
         | Some data \<Rightarrow>
            (if truthy (get_prop data ''error'') then
               (case ToString (the (get_prop data ''error'')) of
                  Some s \<Rightarrow> status_line res @ '': '' @ s
                | None \<Rightarrow> msg @ '' - '' @ take 200 text)
             else if truthy (get_prop data ''message'') then
               (case ToString (the (get_prop data ''message'')) of
                  Some s \<Rightarrow> status_line res @ '': '' @ s
                | None \<Rightarrow> msg @ '' - '' @ take 200 text)
             else msg))
      else msg)"

definition handleJson :: "js \<Rightarrow> response \<Rightarrow> exn + json" where
  "handleJson js res =
     (let text = (case body_text res of Inl e \<Rightarrow> [] | Inr t \<Rightarrow> t) in
      if \<not> ok res then Inl (Error (error_message js res text))
      else if text = [] then Inr (JObj [])
      else (case JSON_parse js text of
              Some data \<Rightarrow> Inr data
            | None \<Rightarrow> Inr (JObj [])))"

text \<open>The endpoints of the API configuration (\<^verbatim>\<open>src/unnamed/part_000\<close>).\<close>

definition endpoints_note :: "js \<Rightarrow> string \<Rightarrow> string" where
  "endpoints_note js phrase =
     BASE_URL js @ ''/api/secretnotes/notes/'' @ encodeURIComponent js phrase"

definition endpoints_noteImage :: "js \<Rightarrow> string \<Rightarrow> string" where
  "endpoints_noteImage js phrase =
     BASE_URL js @ ''/api/secretnotes/notes/'' @ encodeURIComponent js phrase @ ''/image''"

text \<open>
  An \<^verbatim>\<open>async\<close> function is a function of the world that returns its outcome (\<open>Inl\<close>: it
  rejects) and the world after it. A \<^verbatim>\<open>catch\<close> block that logs and rethrows leaves the
  outcome as it is; the console output is not modelled.
\<close>

definition getNote :: "js \<Rightarrow> 'w fetch \<Rightarrow> string \<Rightarrow> 'w \<Rightarrow> (exn + json) \<times> 'w" where
  "getNote js fetch phrase w =
     (let key = normalizePhrase phrase;
          url = endpoints_note js key
      in case fetch \<lparr>http_method = GET, url = url,
                     headers = [(''Accept'', ''application/json'')], body = NoBody\<rparr> w of
           (Inl error, w') \<Rightarrow> (Inl error, w')
         | (Inr res, w') \<Rightarrow> (handleJson js res, w'))"

definition createNote ::
  "js \<Rightarrow> 'w fetch \<Rightarrow> string \<Rightarrow> string \<Rightarrow> 'w \<Rightarrow> (exn + json) \<times> 'w" where
  "createNote js fetch phrase message w =
     (let key = normalizePhrase phrase;
          url = endpoints_note js key
      in case fetch \<lparr>http_method = POST, url = url,
                     headers = [(''Content-Type'', ''application/json''),
                                (''Accept'', ''application/json'')],
                     body = TextBody (JSON_stringify js (JObj [(''message'', JStr message)]))\<rparr> w of
           (Inl error, w') \<Rightarrow> (Inl error, w')
         | (Inr res, w') \<Rightarrow> (handleJson js res, w'))"

definition saveNote ::
  "js \<Rightarrow> 'w fetch \<Rightarrow> string \<Rightarrow> string \<Rightarrow> 'w \<Rightarrow> (exn + json) \<times> 'w" where
  "saveNote js fetch phrase message w =
     (let key = normalizePhrase phrase;
          url = endpoints_note js key
      in case fetch \<lparr>http_method = PUT, url = url,
                     headers = [(''Content-Type'', ''application/json''),
                                (''Accept'', ''application/json'')],
                     body = TextBody (JSON_stringify js (JObj [(''message'', JStr message)]))\<rparr> w of
           (Inl error, w') \<Rightarrow> (Inl error, w')
         | (Inr res, w') \<Rightarrow> (handleJson js res, w'))"

definition updateNote ::
  "js \<Rightarrow> 'w fetch \<Rightarrow> string \<Rightarrow> string \<Rightarrow> 'w \<Rightarrow> (exn + json) \<times> 'w" where
  "updateNote js fetch phrase message w =
     (let key = normalizePhrase phrase;
          url = endpoints_note js key
      in case fetch \<lparr>http_method = PATCH, url = url,
                     headers = [(''Content-Type'', ''application/json''),
                                (''Accept'', ''application/json'')],
                     body = TextBody (JSON_stringify js (JObj [(''message'', JStr message)]))\<rparr> w of
           (Inl error, w') \<Rightarrow> (Inl error, w')
         | (Inr res, w') \<Rightarrow> (handleJson js res, w'))"

text \<open>
  \<^verbatim>\<open>postErr || patchErr || e\<close>: the first truthy operand. A caught exception is an
  object, and every object is truthy.
\<close>

definition exn_truthy :: "exn \<Rightarrow> bool" where
  "exn_truthy e = True"

definition or_else :: "exn \<Rightarrow> exn \<Rightarrow> exn" where
  "or_else a b = (if exn_truthy a then a else b)"

text \<open>
  The end of \<^verbatim>\<open>getOrCreateNote\<close> (lines 93 to 95), reached when one of the two writes
  has resolved: a truthy response of the write is returned, anything else leads to a
  final GET.
\<close>

definition after_write ::
  "js \<Rightarrow> 'w fetch \<Rightarrow> string \<Rightarrow> json \<Rightarrow> 'w \<Rightarrow> (exn + json) \<times> 'w" where
  "after_write js fetch key createdOrUpdated w =
     (if truthy (Some createdOrUpdated) then (Inr createdOrUpdated, w)
      else getNote js fetch key w)"

definition getOrCreateNote ::
  "js \<Rightarrow> 'w fetch \<Rightarrow> string \<Rightarrow> 'w \<Rightarrow> (exn + json) \<times> 'w" where
  "getOrCreateNote js fetch phrase w =
     (let key = normalizePhrase phrase
      in case getNote js fetch key w of
           (Inr existing, w1) \<Rightarrow> (Inr existing, w1)
         | (Inl e, w1) \<Rightarrow>
            (case saveNote js fetch key DEFAULT_INIT_MESSAGE w1 of
               (Inr createdOrUpdated, w2) \<Rightarrow> after_write js fetch key createdOrUpdated w2
             | (Inl patchErr, w2) \<Rightarrow>
                (case createNote js fetch key DEFAULT_INIT_MESSAGE w2 of
                   (Inr createdOrUpdated, w3) \<Rightarrow> after_write js fetch key createdOrUpdated w3
                 | (Inl postErr, w3) \<Rightarrow> (Inl (or_else postErr (or_else patchErr e)), w3))))"

definition deleteImage :: "js \<Rightarrow> 'w fetch \<Rightarrow> string \<Rightarrow> 'w \<Rightarrow> (exn + json) \<times> 'w" where
  "deleteImage js fetch phrase w =
     (let key = normalizePhrase phrase
      in case fetch \<lparr>http_method = DELETE, url = endpoints_noteImage js key,
                     headers = [(''Accept'', ''application/json'')], body = NoBody\<rparr> w of
           (Inl error, w') \<Rightarrow> (Inl error, w')
         | (Inr res, w') \<Rightarrow> (handleJson js res, w'))"

subsection \<open>Base64 of a byte buffer\<close>

text \<open>
  \<^verbatim>\<open>bytes.subarray(begin, end)\<close> for \<open>begin \<le> end\<close>, the end clamped to the length;
  \<^verbatim>\<open>String.fromCharCode\<close> applied to a list of bytes gives the string of the code
  units with these codes.
\<close>

definition subarray :: "8 word list \<Rightarrow> nat \<Rightarrow> nat \<Rightarrow> 8 word list" where
  "subarray bytes begin end' = take (end' - begin) (drop begin bytes)"

definition String_fromCharCode :: "8 word list \<Rightarrow> string" where
  "String_fromCharCode codes = map (\<lambda>b. char_of (unat b)) codes"

text \<open>
  \<^verbatim>\<open>btoa\<close> is a primitive of the platform: the Base64 encoding of RFC 4648 of a string
  whose code units are bytes, three bytes giving four digits, padded with \<^verbatim>\<open>=\<close>.
\<close>

definition base64_alphabet :: string where
  "base64_alphabet = ''ABCDEFGHIJKLMNOPQRSTUVWXYZabcdefghijklmnopqrstuvwxyz0123456789+/''"

definition base64_digit :: "nat \<Rightarrow> char" where
  "base64_digit n = base64_alphabet ! (n mod 64)"

fun btoa :: "string \<Rightarrow> string" where
  "btoa [] = []"
| "btoa [a] =
     (let n = of_char a * 65536
      in [base64_digit (n div 262144), base64_digit (n div 4096), CHR ''='', CHR ''=''])"
| "btoa [a, b] =
     (let n = of_char a * 65536 + of_char b * 256
      in [base64_digit (n div 262144), base64_digit (n div 4096),
          base64_digit (n div 64), CHR ''=''])"
| "btoa (a # b # c # rest) =
     (let n = of_char a * 65536 + of_char b * 256 + of_char c
      in [base64_digit (n div 262144), base64_digit (n div 4096),
          base64_digit (n div 64), base64_digit n]) @ btoa rest"

definition chunk :: nat where
  "chunk = 0x8000"

text \<open>The loop of \<^verbatim>\<open>arrayBufferToBase64\<close>, from the index \<open>i\<close> with \<open>binary\<close> built so far.\<close>

function binary_loop :: "8 word list \<Rightarrow> nat \<Rightarrow> string \<Rightarrow> string" where
  "binary_loop bytes i binary =
     (if i < length bytes
      then binary_loop bytes (i + chunk)
             (binary @ String_fromCharCode (subarray bytes i (i + chunk)))
      else binary)"
  by pat_completeness auto
termination
  by (relation "measure (\<lambda>(bytes, i, binary). length bytes - i)") (auto simp: chunk_def)

declare binary_loop.simps [simp del]



definition arrayBufferToBase64 :: "8 word list \<Rightarrow> string" where
  "arrayBufferToBase64 buffer = btoa (binary_loop buffer 0 [])"

subsection \<open>Images\<close>

text \<open>\<^verbatim>\<open>v || d\<close> for a header value \<open>v\<close> that is a string or \<^verbatim>\<open>null\<close>.\<close>

definition header_or :: "string option \<Rightarrow> string \<Rightarrow> string" where
  "header_or v d = (case v of None \<Rightarrow> d | Some s \<Rightarrow> if s = [] then d else s)"

record image =
  dataUrl :: string
  contentType :: string

definition getImage :: "js \<Rightarrow> 'w fetch \<Rightarrow> string \<Rightarrow> 'w \<Rightarrow> (exn + image) \<times> 'w" where
  "getImage js fetch phrase w =
     (let key = normalizePhrase phrase
      in case fetch \<lparr>http_method = GET, url = endpoints_noteImage js key,
                     headers = [], body = NoBody\<rparr> w of
           (Inl error, w') \<Rightarrow> (Inl error, w')
         | (Inr res, w') \<Rightarrow>
            (if \<not> ok res then (Inl (Error (status_line res)), w')
             else
               (let contentType = header_or (content_type res) ''application/octet-stream''
                in case arrayBuffer res of
                     Inl error \<Rightarrow> (Inl error, w')
                   | Inr buf \<Rightarrow>
                      (let base64 = arrayBufferToBase64 buf
                       in (Inr \<lparr>dataUrl = ''data:'' @ contentType @ '';base64,'' @ base64,
                                contentType = contentType\<rparr>, w')))))"

text \<open>
  \<^verbatim>\<open>s.split(sep)[0]\<close> is the part of \<open>s\<close> before the first separator, and
  \<^verbatim>\<open>s.split(sep).pop()\<close> the part after the last one.
\<close>

definition split_first :: "char \<Rightarrow> string \<Rightarrow> string" where
  "split_first sep s = takeWhile (\<lambda>c. c \<noteq> sep) s"

definition split_pop :: "char \<Rightarrow> string \<Rightarrow> string" where
  "split_pop sep s = rev (takeWhile (\<lambda>c. c \<noteq> sep) (rev s))"

definition nameGuess :: "string \<Rightarrow> string" where
  "nameGuess imageUrl =
     (let name = split_pop (CHR ''/'') (split_first (CHR ''#'') (split_first (CHR ''?'') imageUrl))
      in if name = [] then ''image'' else name)"

definition uploadImageFromUrl ::
  "js \<Rightarrow> 'w fetch \<Rightarrow> string \<Rightarrow> string \<Rightarrow> 'w \<Rightarrow> (exn + json) \<times> 'w" where
  "uploadImageFromUrl js fetch phrase imageUrl w =
     (let key = normalizePhrase phrase
      in case fetch \<lparr>http_method = GET, url = imageUrl, headers = [], body = NoBody\<rparr> w of
           (Inl error, w1) \<Rightarrow> (Inl error, w1)
         | (Inr imgRes, w1) \<Rightarrow>
            (if \<not> ok imgRes
             then (Inl (Error (''Failed to fetch image: '' @ decimal (status imgRes))), w1)
             else case blob imgRes of
                    Inl error \<Rightarrow> (Inl error, w1)
                  | Inr blob' \<Rightarrow>
                     (case fetch \<lparr>http_method = POST, url = endpoints_noteImage js key,
                                  headers = [(''Accept'', ''application/json'')],
                                  body = FormBody ''image'' blob' (nameGuess imageUrl)\<rparr> w1 of
                        (Inl error, w2) \<Rightarrow> (Inl error, w2)
                      | (Inr res, w2) \<Rightarrow> (handleJson js res, w2))))"

text \<open>
  A recording transport, to state which requests an operation issues: it behaves as
  \<open>fetch\<close> and appends each request to a log kept beside the world.
\<close>

definition logged :: "'w fetch \<Rightarrow> ('w \<times> request list) fetch" where
  "logged fetch req = (\<lambda>(w, log). case fetch req w of (r, w') \<Rightarrow> (r, (w', log @ [req])))"

section \<open>The screen: debounced autosave (\<^verbatim>\<open>src/unnamed/part_001\<close>)\<close>

text \<open>
  The state of \<^verbatim>\<open>IndexScreen\<close> that the autosave effect reads and writes, with the part
  of the runtime it acts on. \<open>current_note\<close> is the state variable \<^verbatim>\<open>note\<close> (\<open>None\<close>:
  \<^verbatim>\<open>null\<close>), \<open>loading\<close> is \<^verbatim>\<open>loading.key\<close>, \<open>saveTimeout\<close> is
  \<^verbatim>\<open>saveTimeout.current\<close>, and \<open>cleanup\<close> tells whether the last run of the effect
  returned its cleanup function. \<open>timers\<close> are the pending timers of the runtime, in the
  order of their creation, \<open>now\<close> is the clock in milliseconds. \<open>inflight\<close> holds the
  arguments of the calls of \<^verbatim>\<open>saveNote\<close> that the autosave has started and that have not
  settled yet, \<open>issued\<close> the arguments of all the calls it has started. The image state and
  what \<^verbatim>\<open>Alert.alert\<close> shows are not modelled.
\<close>

record timer =
  timer_id :: nat
  due :: nat
  timer_phrase :: string
  timer_message :: string

record screen =
  phrase :: string
  current_note :: "json option"
  message :: string
  loading :: "string option"
  saveTimeout :: "nat option"
  cleanup :: bool
  timers :: "timer list"
  next_timer :: nat
  now :: nat
  inflight :: "(string \<times> string) list"
  issued :: "(string \<times> string) list"

text \<open>\<^verbatim>\<open>const valid = useMemo(() => phrase.length >= 3, [phrase])\<close>.\<close>

definition valid :: "screen \<Rightarrow> bool" where
  "valid s = (3 \<le> length (phrase s))"

text \<open>\<^verbatim>\<open>if (saveTimeout.current)\<close>: a timer identifier is a number, truthy unless it is 0.\<close>

definition timer_truthy :: "nat option \<Rightarrow> bool" where
  "timer_truthy r = (case r of None \<Rightarrow> False | Some i \<Rightarrow> i \<noteq> 0)"

definition clearTimeout :: "nat \<Rightarrow> screen \<Rightarrow> screen" where
  "clearTimeout i s = s\<lparr>timers := filter (\<lambda>t. timer_id t \<noteq> i) (timers s)\<rparr>"

text \<open>
  \<^verbatim>\<open>setTimeout(callback, delay)\<close>, the callback being the one of line 70 with the
  \<^verbatim>\<open>phrase\<close> and the \<^verbatim>\<open>message\<close> of the render that created it: a fresh positive
  identifier, and a timer due \<open>delay\<close> milliseconds from now.
\<close>

definition setTimeout :: "string \<Rightarrow> string \<Rightarrow> nat \<Rightarrow> screen \<Rightarrow> nat \<times> screen" where
  "setTimeout p m delay s =
     (let i = Suc (next_timer s)
      in (i, s\<lparr>timers := timers s @
                 [\<lparr>timer_id = i, due = now s + delay, timer_phrase = p, timer_message = m\<rparr>],
               next_timer := i\<rparr>))"

text \<open>\<^verbatim>\<open>if (saveTimeout.current) clearTimeout(saveTimeout.current)\<close>.\<close>

definition clear_saveTimeout :: "screen \<Rightarrow> screen" where
  "clear_saveTimeout s =
     (if timer_truthy (saveTimeout s) then clearTimeout (the (saveTimeout s)) s else s)"

text \<open>
  The body of the effect (lines 64 to 79), run with the state of the current render.
  \<^verbatim>\<open>message === note.message\<close> holds when the note has a \<^verbatim>\<open>message\<close> property that is
  the string \<open>message\<close>.
\<close>

definition autosave_effect :: "screen \<Rightarrow> screen" where
  "autosave_effect s =
     (case current_note s of
        None \<Rightarrow> s\<lparr>cleanup := False\<rparr>
      | Some n \<Rightarrow>
         (if \<not> truthy (Some n) then s\<lparr>cleanup := False\<rparr>
          else if \<not> valid s then s\<lparr>cleanup := False\<rparr>
          else if get_prop n ''message'' = Some (JStr (message s)) then s\<lparr>cleanup := False\<rparr>
          else
            (let s1 = clear_saveTimeout s;
                 (i, s2) = setTimeout (phrase s) (message s) 2000 s1
             in s2\<lparr>saveTimeout := Some i, cleanup := True\<rparr>)))"

text \<open>
  When a dependency of the effect (\<^verbatim>\<open>message\<close>, \<^verbatim>\<open>note\<close>, \<^verbatim>\<open>valid\<close>) has changed,
  React runs the cleanup function that the previous run returned, if it returned one, and
  then the body of the effect.
\<close>

definition run_cleanup :: "screen \<Rightarrow> screen" where
  "run_cleanup s = (if cleanup s then clear_saveTimeout s else s)"

definition rerun_effect :: "screen \<Rightarrow> screen" where
  "rerun_effect s = autosave_effect (run_cleanup s)"

text \<open>
  A timer fires (lines 70 to 75): \<^verbatim>\<open>withLoad('autosave', ...)\<close> sets the loading key
  and starts \<^verbatim>\<open>saveNote(phrase, message)\<close> with the values that the callback captured.
\<close>

definition fire :: "timer \<Rightarrow> screen \<Rightarrow> screen" where
  "fire t s =
     s\<lparr>timers := filter (\<lambda>u. timer_id u \<noteq> timer_id t) (timers s),
       loading := Some ''autosave'',
       inflight := inflight s @ [(timer_phrase t, timer_message t)],
       issued := issued s @ [(timer_phrase t, timer_message t)]\<rparr>"

text \<open>
  \<^verbatim>\<open>setNote(n)\<close> with a value \<open>n\<close> that the library has just returned. React compares
  the new state with the old one by \<^verbatim>\<open>Object.is\<close>: an object or an array that was just
  built is new, a primitive value is new unless the state holds the same value. The
  result tells whether the dependency \<^verbatim>\<open>note\<close> of the effect has changed.
\<close>

fun primitive :: "json \<Rightarrow> bool" where
  "primitive (JArr xs) = False"
| "primitive (JObj kvs) = False"
| "primitive _ = True"

definition note_state :: "json \<Rightarrow> json option" where
  "note_state n = (if n = JNull then None else Some n)"

definition setNote :: "json \<Rightarrow> screen \<Rightarrow> screen \<times> bool" where
  "setNote n s =
     (if primitive n \<and> current_note s = note_state n then (s, False)
      else (s\<lparr>current_note := note_state n\<rparr>, True))"

text \<open>
  What happens to the screen:
  \<^item> \<open>Edit m\<close>: the text input calls \<^verbatim>\<open>setMessage(m)\<close>;
  \<^item> \<open>SetPhrase p\<close>: the passphrase input calls \<^verbatim>\<open>setPhrase(p)\<close>;
  \<^item> \<open>Loaded m rest\<close>: \<^verbatim>\<open>getOrCreateNote\<close> in \<^verbatim>\<open>onLoad\<close> has resolved with a note as
    the type \<^verbatim>\<open>Note\<close> declares it, an object whose \<^verbatim>\<open>message\<close> is the string \<open>m\<close> and
    whose other fields are \<open>rest\<close>, and lines 30 to 32 run: \<^verbatim>\<open>setNote(n)\<close> with the new
    object, \<^verbatim>\<open>setMessage(n.message ?? '')\<close> with \<open>m\<close>, and \<^verbatim>\<open>withLoad\<close> resets
    \<^verbatim>\<open>loading\<close>;
  \<^item> \<open>Advance d\<close>: \<open>d\<close> milliseconds pass, and the timers due by then fire;
  \<^item> \<open>Resolved k r\<close>: the call of \<^verbatim>\<open>saveNote\<close> at position \<open>k\<close> of \<open>inflight\<close> settles
    with the outcome \<open>r\<close>, which the server and the network decide.

  Setting a state variable to the value it has changes nothing. The effect runs again
  exactly when \<^verbatim>\<open>message\<close>, \<^verbatim>\<open>note\<close> or \<^verbatim>\<open>valid\<close> has changed.
\<close>

datatype event =
    Edit string
  | SetPhrase string
  | Loaded string "(string \<times> json) list"
  | Advance nat
  | Resolved nat "exn + json"

fun step :: "event \<Rightarrow> screen \<Rightarrow> screen" where
  "step (Edit m) s =
     (if m = message s then s else rerun_effect (s\<lparr>message := m\<rparr>))"
| "step (SetPhrase p) s =
     (let s' = s\<lparr>phrase := p\<rparr>
      in if valid s' = valid s then s' else rerun_effect s')"
| "step (Loaded m rest) s =
     (let (s1, changed) = setNote (JObj ((''message'', JStr m) # rest)) s;
          s2 = s1\<lparr>message := m, loading := None\<rparr>
      in if changed \<or> m \<noteq> message s then rerun_effect s2 else s2)"
| "step (Advance d) s =
     (fold fire (filter (\<lambda>t. due t \<le> now s + d) (timers s)) s)\<lparr>now := now s + d\<rparr>"
| "step (Resolved k r) s =
     (if k < length (inflight s) then
        (let s' = s\<lparr>inflight := take k (inflight s) @ drop (Suc k) (inflight s)\<rparr>
         in case r of
              Inr updated \<Rightarrow>
                (let (s1, changed) = setNote updated s';
                     s2 = s1\<lparr>loading := None\<rparr>
                 in if changed then rerun_effect s2 else s2)
            | Inl e \<Rightarrow> s'\<lparr>loading := None\<rparr>)
      else s)"

text \<open>A sequence of events, from left to right.\<close>

definition run :: "event list \<Rightarrow> screen \<Rightarrow> screen" where
  "run es s = fold step es s"

text \<open>
  Three notions for the statements. The effect schedules a save when none of its early
  returns applies; the timer it then creates is \<open>new_timer\<close>. The timers are owned when
  there is none or exactly the one that \<^verbatim>\<open>saveTimeout.current\<close> names, with the cleanup
  function in place. They are tracked when, moreover, the pending timer was created for
  the message of the screen, that is when the effect schedules a save on this screen.
\<close>

definition should_save :: "screen \<Rightarrow> bool" where
  "should_save s =
     (case current_note s of
        None \<Rightarrow> False
      | Some n \<Rightarrow>
          truthy (Some n) \<and> valid s \<and> get_prop n ''message'' \<noteq> Some (JStr (message s)))"

definition new_timer :: "screen \<Rightarrow> timer" where
  "new_timer s =
     \<lparr>timer_id = Suc (next_timer s), due = now s + 2000, timer_phrase = phrase s,
      timer_message = message s\<rparr>"

definition owned :: "screen \<Rightarrow> bool" where
  "owned s =
     (case timers s of
        [] \<Rightarrow> True
      | [t] \<Rightarrow> saveTimeout s = Some (timer_id t) \<and> timer_id t \<noteq> 0 \<and> cleanup s
      | _ \<Rightarrow> False)"

definition tracked :: "screen \<Rightarrow> bool" where
  "tracked s =
     (case timers s of
        [] \<Rightarrow> True
      | [t] \<Rightarrow>
          saveTimeout s = Some (timer_id t) \<and> timer_id t \<noteq> 0 \<and> cleanup s \<and>
          timer_message t = message s \<and> should_save s
      | _ \<Rightarrow> False)"

text \<open>The screen when it is mounted.\<close>

definition mounted :: screen where
  "mounted =
     \<lparr>phrase = [], current_note = None, message = [], loading = None, saveTimeout = None,
      cleanup = False, timers = [], next_timer = 0, now = 0, inflight = [], issued = []\<rparr>"

section \<open>Vocabulary of the statements and a specimen platform\<close>

text \<open>The request that \<^verbatim>\<open>getNote\<close> sends for a key, and the request that a write
  (\<^verbatim>\<open>saveNote\<close>: PUT, \<^verbatim>\<open>createNote\<close>: POST, \<^verbatim>\<open>updateNote\<close>: PATCH) sends for a
  key and a message.\<close>

definition read_request :: "js \<Rightarrow> string \<Rightarrow> request" where
  "read_request js key =
     \<lparr>http_method = GET, url = endpoints_note js key,
      headers = [(''Accept'', ''application/json'')], body = NoBody\<rparr>"

definition write_request :: "js \<Rightarrow> http_method \<Rightarrow> string \<Rightarrow> string \<Rightarrow> request" where
  "write_request js m key msg =
     \<lparr>http_method = m, url = endpoints_note js key,
      headers = [(''Content-Type'', ''application/json''), (''Accept'', ''application/json'')],
      body = TextBody (JSON_stringify js (JObj [(''message'', JStr msg)]))\<rparr>"

text \<open>
  A specimen platform for evaluating the library on concrete inputs. Its
  \<^verbatim>\<open>JSON.parse\<close> knows the few texts used below and rejects every other text; its
  \<^verbatim>\<open>JSON.stringify\<close> renders an object with one string property whose text needs no
  escape; its \<^verbatim>\<open>encodeURIComponent\<close> is the identity, as it is on letters and digits.
\<close>

definition demo_js :: "js" where
  \<open>demo_js =
     \<lparr>JSON_parse = (\<lambda>s.
        if s = ''{"error":"note not found"}''
          then Some (JObj [(''error'', JStr ''note not found'')])
        else if s = ''{"message":"Welcome to your new secure note!"}''
          then Some (JObj [(''message'', JStr ''Welcome to your new secure note!'')])
        else if s = ''{"message":"hello"}'' then Some (JObj [(''message'', JStr ''hello'')])
        else if s = ''null'' then Some JNull
        else None),
      JSON_stringify = (\<lambda>v. case v of
          JObj [(k, JStr m)] \<Rightarrow>
            [CHR 0x7B, CHR 0x22] @ k @ [CHR 0x22, CHR 0x3A, CHR 0x22] @ m @ [CHR 0x22, CHR 0x7D]
        | _ \<Rightarrow> ''null''),
      encodeURIComponent = (\<lambda>s. s),
      BASE_URL = ''https://notes.example''\<rparr>\<close>

text \<open>
  A scripted transport: the world is the list of the outcomes still to come, and each
  request consumes the next one; when the script is exhausted the network fails.
\<close>

definition scripted :: "(exn + response) list fetch" where
  "scripted req w =
     (case w of [] \<Rightarrow> (Inl (Rejected ''Network request failed''), []) | r # rs \<Rightarrow> (r, rs))"

text \<open>A response with a status line and a text body.\<close>

definition text_response :: "nat \<Rightarrow> string \<Rightarrow> string \<Rightarrow> response" where
  "text_response st stt txt =
     \<lparr>status = st, statusText = stt, content_type = Some ''application/json'',
      body_text = Inr txt, arrayBuffer = Inr [], blob = Inr []\<rparr>"

lemmas eval_defs = getOrCreateNote_def getNote_def saveNote_def createNote_def after_write_def
  logged_def scripted_def handleJson_def error_message_def status_line_def decimal.simps
  decimal_digit_def ok_def text_response_def demo_js_def normalizePhrase_def trim_def
  isWhiteSpace_def endpoints_note_def DEFAULT_INIT_MESSAGE_def read_request_def
  write_request_def or_else_def exn_truthy_def Let_def

text \<open>A specimen screen: mounted, the passphrase typed, a note loaded.\<close>

definition hello_note :: "json" where
  "hello_note = JObj [(''message'', JStr ''hello'')]"

definition loaded_screen :: "screen" where
  "loaded_screen = run [SetPhrase ''abc'', Loaded ''hello'' []] mounted"

lemmas screen_defs = run_def rerun_effect_def run_cleanup_def autosave_effect_def
  clear_saveTimeout_def clearTimeout_def setTimeout_def timer_truthy_def fire_def valid_def
  setNote_def note_state_def
  mounted_def hello_note_def Let_def

section \<open>The transport layer: \<^verbatim>\<open>handleJson\<close>\<close>

lemma sublist_tail2: "sublist xs (ps @ a # b # xs)"
proof -
  have "ps @ a # b # xs = (ps @ [a, b]) @ xs" by simp
  then show ?thesis by (metis sublist_append_leftI)
qed

lemma error_message_prefix: "prefix (status_line res) (error_message js res t)"
  by (simp add: error_message_def Let_def split: option.splits)

text \<open>
  Claim C6. A response that is not ok makes \<^verbatim>\<open>handleJson\<close> throw an Error whose message
  starts with the status and the status text. When the body parses as JSON and carries an
  \<^verbatim>\<open>error\<close> string, the message contains it (and is the status line, a colon and that
  string when it is not empty); when no truthy \<^verbatim>\<open>error\<close> is there and the body carries
  a \<^verbatim>\<open>message\<close> string, the same holds of that string. When the body does not parse,
  the message is the status line followed, for a non-empty body, by a dash and the first
  200 characters of the body.
\<close>

theorem handleJson_failure_message:
  assumes "\<not> ok res"
  shows "\<exists>m. handleJson js res = Inl (Error m) \<and> prefix (status_line res) m \<and>
    (\<forall>t data. body_text res = Inr t \<and> t \<noteq> [] \<and> JSON_parse js t = Some data \<longrightarrow>
       (\<forall>e. get_prop data ''error'' = Some (JStr e) \<longrightarrow>
          sublist e m \<and> (e \<noteq> [] \<longrightarrow> m = status_line res @ '': '' @ e)) \<and>
       (\<forall>s. \<not> truthy (get_prop data ''error'') \<and> get_prop data ''message'' = Some (JStr s) \<longrightarrow>
          sublist s m \<and> (s \<noteq> [] \<longrightarrow> m = status_line res @ '': '' @ s))) \<and>
    (\<forall>t. body_text res = Inr t \<and> JSON_parse js t = None \<longrightarrow>
       m = status_line res @ (if t = [] then [] else '' - '' @ take 200 t) \<and>
       length (take 200 t) \<le> 200)"
  using assms
  by (auto simp: handleJson_def error_message_def Let_def sublist_tail2
      split: option.splits sum.splits)

theorem handleJson_failure_message_witness:
  \<open>\<not> ok (text_response 404 ''Not Found'' ''{"error":"note not found"}'') \<and>
   handleJson demo_js (text_response 404 ''Not Found'' ''{"error":"note not found"}'') =
     Inl (Error ''404 Not Found: note not found'') \<and>
   sublist ''note not found'' ''404 Not Found: note not found'' \<and>
   \<not> ok (text_response 400 ''Bad Request'' ''{"message":"hello"}'') \<and>
   handleJson demo_js (text_response 400 ''Bad Request'' ''{"message":"hello"}'') =
     Inl (Error ''400 Bad Request: hello'') \<and>
   sublist ''hello'' ''400 Bad Request: hello'' \<and>
   \<not> ok (text_response 502 ''Bad Gateway'' ''upstream down'') \<and>
   handleJson demo_js (text_response 502 ''Bad Gateway'' ''upstream down'') =
     Inl (Error ''502 Bad Gateway - upstream down'')\<close>
proof -
  define t where \<open>t = ''{"error":"note not found"}''\<close>
  define e where "e = ''note not found''"
  define r where "r = text_response 404 ''Not Found'' t"
  define t' where "t' = ''upstream down''"
  define q where "q = text_response 502 ''Bad Gateway'' t'"
  define u where \<open>u = ''{"message":"hello"}''\<close>
  define h where "h = ''hello''"
  define b where "b = text_response 400 ''Bad Request'' u"
  have nok: "\<not> ok r" and nok': "\<not> ok q" and nokb: "\<not> ok b"
    by (simp_all add: ok_def text_response_def r_def q_def b_def)
  have body: "body_text r = Inr t" and body': "body_text q = Inr t'"
    and bodyb: "body_text b = Inr u"
    by (simp_all add: text_response_def r_def q_def b_def)
  have parse: "JSON_parse demo_js t = Some (JObj [(''error'', JStr e)])"
    and parse': "JSON_parse demo_js t' = None"
    and parseb: "JSON_parse demo_js u = Some (JObj [(''message'', JStr h)])"
    by (simp_all add: demo_js_def t_def t'_def e_def u_def h_def)
  have ne: "t \<noteq> []" and ne': "e \<noteq> []" and neu: "u \<noteq> []" and neh: "h \<noteq> []"
    by (simp_all add: t_def e_def u_def h_def)
  have gp: "get_prop (JObj [(''error'', JStr e)]) ''error'' = Some (JStr e)"
    by simp
  have gpb: "\<not> truthy (get_prop (JObj [(''message'', JStr h)]) ''error'') \<and>
      get_prop (JObj [(''message'', JStr h)] :: json) ''message'' = Some (JStr h)"
    by simp
  have line: "status_line r @ '': '' @ e = ''404 Not Found: note not found''"
    and line': "status_line q @ (if t' = [] then [] else '' - '' @ take 200 t') =
      ''502 Bad Gateway - upstream down''"
    and lineb: "status_line b @ '': '' @ h = ''400 Bad Request: hello''"
    by (simp_all add: status_line_def text_response_def decimal.simps decimal_digit_def
        r_def q_def b_def e_def t'_def h_def)
  from handleJson_failure_message [OF nok, of demo_js] obtain m where
    m: "handleJson demo_js r = Inl (Error m)" and
    "prefix (status_line r) m" and
    field: "\<forall>t data. body_text r = Inr t \<and> t \<noteq> [] \<and> JSON_parse demo_js t = Some data \<longrightarrow>
       (\<forall>e. get_prop data ''error'' = Some (JStr e) \<longrightarrow>
          sublist e m \<and> (e \<noteq> [] \<longrightarrow> m = status_line r @ '': '' @ e)) \<and>
       (\<forall>s. \<not> truthy (get_prop data ''error'') \<and>
            get_prop data ''message'' = Some (JStr s) \<longrightarrow>
          sublist s m \<and> (s \<noteq> [] \<longrightarrow> m = status_line r @ '': '' @ s))" and
    "\<forall>t. body_text r = Inr t \<and> JSON_parse demo_js t = None \<longrightarrow>
       m = status_line r @ (if t = [] then [] else '' - '' @ take 200 t) \<and>
       length (take 200 t) \<le> 200"
    by (elim exE conjE) (rule that)
  have hyp: "body_text r = Inr t \<and> t \<noteq> [] \<and>
      JSON_parse demo_js t = Some (JObj [(''error'', JStr e)])"
    using body ne parse by (intro conjI)
  note detail = field [THEN spec, THEN spec, THEN mp, OF hyp, THEN conjunct1, THEN spec,
      THEN mp, OF gp]
  note sub = detail [THEN conjunct1]
  note m_eq = detail [THEN conjunct2, THEN mp, OF ne']
  from handleJson_failure_message [OF nokb, of demo_js] obtain mb where
    mb: "handleJson demo_js b = Inl (Error mb)" and
    "prefix (status_line b) mb" and
    fieldb: "\<forall>t data. body_text b = Inr t \<and> t \<noteq> [] \<and> JSON_parse demo_js t = Some data \<longrightarrow>
       (\<forall>e. get_prop data ''error'' = Some (JStr e) \<longrightarrow>
          sublist e mb \<and> (e \<noteq> [] \<longrightarrow> mb = status_line b @ '': '' @ e)) \<and>
       (\<forall>s. \<not> truthy (get_prop data ''error'') \<and>
            get_prop data ''message'' = Some (JStr s) \<longrightarrow>
          sublist s mb \<and> (s \<noteq> [] \<longrightarrow> mb = status_line b @ '': '' @ s))" and
    "\<forall>t. body_text b = Inr t \<and> JSON_parse demo_js t = None \<longrightarrow>
       mb = status_line b @ (if t = [] then [] else '' - '' @ take 200 t) \<and>
       length (take 200 t) \<le> 200"
    by (elim exE conjE) (rule that)
  have hypb: "body_text b = Inr u \<and> u \<noteq> [] \<and>
      JSON_parse demo_js u = Some (JObj [(''message'', JStr h)])"
    using bodyb neu parseb by (intro conjI)
  note detailb = fieldb [THEN spec, THEN spec, THEN mp, OF hypb, THEN conjunct2, THEN spec,
      THEN mp, OF gpb]
  note subb = detailb [THEN conjunct1]
  note mb_eq = detailb [THEN conjunct2, THEN mp, OF neh]
  from handleJson_failure_message [OF nok', of demo_js] obtain m' where
    m': "handleJson demo_js q = Inl (Error m')" and
    "prefix (status_line q) m'" and
    "\<forall>t data. body_text q = Inr t \<and> t \<noteq> [] \<and> JSON_parse demo_js t = Some data \<longrightarrow>
       (\<forall>e. get_prop data ''error'' = Some (JStr e) \<longrightarrow>
          sublist e m' \<and> (e \<noteq> [] \<longrightarrow> m' = status_line q @ '': '' @ e)) \<and>
       (\<forall>s. \<not> truthy (get_prop data ''error'') \<and>
            get_prop data ''message'' = Some (JStr s) \<longrightarrow>
          sublist s m' \<and> (s \<noteq> [] \<longrightarrow> m' = status_line q @ '': '' @ s))" and
    raw: "\<forall>t. body_text q = Inr t \<and> JSON_parse demo_js t = None \<longrightarrow>
       m' = status_line q @ (if t = [] then [] else '' - '' @ take 200 t) \<and>
       length (take 200 t) \<le> 200"
    by (elim exE conjE) (rule that)
  have hyp': "body_text q = Inr t' \<and> JSON_parse demo_js t' = None"
    using body' parse' by (intro conjI)
  note m'_eq = raw [THEN spec, THEN mp, OF hyp', THEN conjunct1]
  have "\<not> ok r \<and> handleJson demo_js r = Inl (Error (status_line r @ '': '' @ e)) \<and>
    sublist e (status_line r @ '': '' @ e) \<and>
    \<not> ok b \<and> handleJson demo_js b = Inl (Error (status_line b @ '': '' @ h)) \<and>
    sublist h (status_line b @ '': '' @ h) \<and>
    \<not> ok q \<and>
    handleJson demo_js q =
      Inl (Error (status_line q @ (if t' = [] then [] else '' - '' @ take 200 t')))"
    using nok nok' nokb m m' mb sub subb m_eq mb_eq m'_eq by simp
  then show ?thesis
    unfolding line line' lineb unfolding r_def q_def b_def t_def t'_def e_def u_def h_def .
qed

text \<open>
  Claim C7. A response that is ok and whose body is empty, or whose body is not empty and
  does not parse as JSON, makes \<^verbatim>\<open>handleJson\<close> return the empty object; so does an ok
  response whose body cannot be read. It never throws for an ok response.
\<close>

theorem handleJson_success_lenient:
  assumes "ok res"
  shows "(body_text res = Inr [] \<longrightarrow> handleJson js res = Inr (JObj [])) \<and>
    (\<forall>t. body_text res = Inr t \<and> t \<noteq> [] \<and> JSON_parse js t = None \<longrightarrow>
       handleJson js res = Inr (JObj [])) \<and>
    (\<forall>e. body_text res = Inl e \<longrightarrow> handleJson js res = Inr (JObj [])) \<and>
    (\<exists>v. handleJson js res = Inr v)"
  using assms by (auto simp: handleJson_def Let_def split: option.splits sum.splits)

theorem handleJson_success_lenient_witness:
  "ok (text_response 204 ''No Content'' []) \<and>
   handleJson demo_js (text_response 204 ''No Content'' []) = Inr (JObj []) \<and>
   ok (text_response 200 ''OK'' ''saved'') \<and>
   handleJson demo_js (text_response 200 ''OK'' ''saved'') = Inr (JObj []) \<and>
   ok ((text_response 200 ''OK'' [])\<lparr>body_text := Inl (Rejected ''stream closed'')\<rparr>) \<and>
   handleJson demo_js
     ((text_response 200 ''OK'' [])\<lparr>body_text := Inl (Rejected ''stream closed'')\<rparr>) =
     Inr (JObj [])"
proof -
  let ?r = "text_response 204 ''No Content'' []"
  let ?q = "text_response 200 ''OK'' ''saved''"
  let ?u = "(text_response 200 ''OK'' [])\<lparr>body_text := Inl (Rejected ''stream closed'')\<rparr>"
  have ok: "ok ?r" and ok': "ok ?q" and oku: "ok ?u"
    by (simp_all add: ok_def text_response_def)
  have body: "body_text ?r = Inr []"
    and body': "body_text ?q = Inr ''saved'' \<and> ''saved'' \<noteq> [] \<and>
      JSON_parse demo_js ''saved'' = None"
    and bodyu: "body_text ?u = Inl (Rejected ''stream closed'')"
    by (simp_all add: text_response_def demo_js_def)
  note a = handleJson_success_lenient [OF ok, of demo_js, THEN conjunct1, THEN mp, OF body]
  note b = handleJson_success_lenient [OF ok', of demo_js, THEN conjunct2, THEN conjunct1,
      THEN spec, THEN mp, OF body']
  note c = handleJson_success_lenient [OF oku, of demo_js, THEN conjunct2, THEN conjunct2,
      THEN conjunct1, THEN spec, THEN mp, OF bodyu]
  from ok ok' oku a b c show ?thesis by (intro conjI)
qed

section \<open>The note resolver: \<^verbatim>\<open>getOrCreateNote\<close>\<close>

subsection \<open>The key normaliser\<close>

lemma dropWhile_rev_dropWhile:
  "dropWhile P (rev (dropWhile P (rev (dropWhile P s)))) = rev (dropWhile P (rev (dropWhile P s)))"
  by (metis (no_types, lifting) ext Nil_is_rev_conv dropWhile_eq_Nil_conv
    dropWhile_eq_self_iff dropWhile_last hd_dropWhile hd_rev last_rev)

lemma trim_no_leading: "dropWhile isWhiteSpace (trim s) = trim s"
  unfolding trim_def by (rule dropWhile_rev_dropWhile)

lemma trim_idem: "trim (trim s) = trim s"
proof -
  have "trim (trim s) = rev (dropWhile isWhiteSpace (rev (trim s)))"
    by (simp add: trim_def[of "trim s"] trim_no_leading)
  also have "rev (trim s) = dropWhile isWhiteSpace (rev (dropWhile isWhiteSpace s))"
    by (simp add: trim_def)
  finally show ?thesis by (simp add: trim_def)
qed

lemma trim_append_ws:
  assumes pre: "\<forall>c\<in>set pre. isWhiteSpace c" and post: "\<forall>c\<in>set post. isWhiteSpace c"
  shows "trim (pre @ s @ post) = trim s"
proof -
  have front: "dropWhile isWhiteSpace (pre @ s @ post) = dropWhile isWhiteSpace (s @ post)"
    using pre by (simp add: dropWhile_append2)
  show ?thesis
  proof (cases "\<forall>c\<in>set s. isWhiteSpace c")
    case True
    have a: "dropWhile isWhiteSpace (s @ post) = []"
      using True post by auto
    have b: "dropWhile isWhiteSpace s = []"
      using True by auto
    show ?thesis by (simp only: trim_def front a b)
  next
    case False
    then obtain c where "c \<in> set s" "\<not> isWhiteSpace c" by blast
    then have "dropWhile isWhiteSpace (s @ post) = dropWhile isWhiteSpace s @ post"
      by (simp add: dropWhile_append1)
    moreover have "dropWhile isWhiteSpace (rev post @ rev (dropWhile isWhiteSpace s))
        = dropWhile isWhiteSpace (rev (dropWhile isWhiteSpace s))"
      by (rule dropWhile_append2) (use post in auto)
    ultimately show ?thesis by (simp add: trim_def front)
  qed
qed

lemma normalizePhrase_idem: "normalizePhrase (normalizePhrase p) = normalizePhrase p"
  by (simp add: normalizePhrase_def trim_idem)

subsection \<open>What each operation sends\<close>

lemma getNote_fetch:
  "getNote js fetch p w =
     (case fetch (read_request js (normalizePhrase p)) w of
        (Inl e, w') \<Rightarrow> (Inl e, w')
      | (Inr res, w') \<Rightarrow> (handleJson js res, w'))"
  by (simp add: getNote_def read_request_def Let_def)

lemma saveNote_fetch:
  "saveNote js fetch p m w =
     (case fetch (write_request js PUT (normalizePhrase p) m) w of
        (Inl e, w') \<Rightarrow> (Inl e, w')
      | (Inr res, w') \<Rightarrow> (handleJson js res, w'))"
  by (simp add: saveNote_def write_request_def Let_def)

lemma createNote_fetch:
  "createNote js fetch p m w =
     (case fetch (write_request js POST (normalizePhrase p) m) w of
        (Inl e, w') \<Rightarrow> (Inl e, w')
      | (Inr res, w') \<Rightarrow> (handleJson js res, w'))"
  by (simp add: createNote_def write_request_def Let_def)

lemma updateNote_fetch:
  "updateNote js fetch p m w =
     (case fetch (write_request js PATCH (normalizePhrase p) m) w of
        (Inl e, w') \<Rightarrow> (Inl e, w')
      | (Inr res, w') \<Rightarrow> (handleJson js res, w'))"
  by (simp add: updateNote_def write_request_def Let_def)

lemma getNote_logged:
  "getNote js (logged fetch) p (w, l) =
     (case getNote js fetch p w of
        (r, w') \<Rightarrow> (r, (w', l @ [read_request js (normalizePhrase p)])))"
  by (simp add: getNote_fetch logged_def split: prod.splits sum.splits)

lemma saveNote_logged:
  "saveNote js (logged fetch) p m (w, l) =
     (case saveNote js fetch p m w of
        (r, w') \<Rightarrow> (r, (w', l @ [write_request js PUT (normalizePhrase p) m])))"
  by (simp add: saveNote_fetch logged_def split: prod.splits sum.splits)

lemma createNote_logged:
  "createNote js (logged fetch) p m (w, l) =
     (case createNote js fetch p m w of
        (r, w') \<Rightarrow> (r, (w', l @ [write_request js POST (normalizePhrase p) m])))"
  by (simp add: createNote_fetch logged_def split: prod.splits sum.splits)

lemma after_write_logged:
  "after_write js (logged fetch) key v (w, l) =
     (if truthy (Some v) then (Inr v, (w, l))
      else case getNote js fetch key w of
             (r, w') \<Rightarrow> (r, (w', l @ [read_request js (normalizePhrase key)])))"
  by (simp add: after_write_def getNote_logged)

lemma or_else_first: "or_else a b = a"
  by (simp add: or_else_def exn_truthy_def)

text \<open>The resolver over a recording transport, case by case.\<close>

lemma getOrCreateNote_logged:
  "getOrCreateNote js (logged fetch) p (w, l) =
     (let key = normalizePhrase p
      in case getNote js fetch key w of
           (Inr existing, w1) \<Rightarrow> (Inr existing, (w1, l @ [read_request js key]))
         | (Inl e, w1) \<Rightarrow>
            (case saveNote js fetch key DEFAULT_INIT_MESSAGE w1 of
               (Inr v, w2) \<Rightarrow>
                 after_write js (logged fetch) key v
                   (w2, l @ [read_request js key, write_request js PUT key DEFAULT_INIT_MESSAGE])
             | (Inl patchErr, w2) \<Rightarrow>
                (case createNote js fetch key DEFAULT_INIT_MESSAGE w2 of
                   (Inr v, w3) \<Rightarrow>
                     after_write js (logged fetch) key v
                       (w3, l @ [read_request js key,
                                 write_request js PUT key DEFAULT_INIT_MESSAGE,
                                 write_request js POST key DEFAULT_INIT_MESSAGE])
                 | (Inl postErr, w3) \<Rightarrow>
                     (Inl (or_else postErr (or_else patchErr e)),
                      (w3, l @ [read_request js key,
                                write_request js PUT key DEFAULT_INIT_MESSAGE,
                                write_request js POST key DEFAULT_INIT_MESSAGE])))))"
  by (simp add: getOrCreateNote_def[of js "logged fetch"] Let_def getNote_logged saveNote_logged
      createNote_logged normalizePhrase_idem split: prod.splits sum.splits)

text \<open>
  Claim C1. With \<open>key\<close> the normalised passphrase: when the read of \<open>key\<close> succeeds, its
  value is returned unchanged and the read is the only request. When the read fails, the
  next request is the upsert (PUT) of the default message for \<open>key\<close>; when the upsert fails
  too, the next request is the create (POST) of the default message for \<open>key\<close>; when the
  create fails as well, no further request is made and the rejection is
  \<^verbatim>\<open>postErr || patchErr || e\<close>, which is the failure of the create.
\<close>

theorem getOrCreateNote_protocol:
  "(\<forall>n w1. getNote js fetch (normalizePhrase p) w = (Inr n, w1) \<longrightarrow>
      getOrCreateNote js (logged fetch) p (w, []) =
        (Inr n, (w1, [read_request js (normalizePhrase p)]))) \<and>
   (\<forall>e w1. getNote js fetch (normalizePhrase p) w = (Inl e, w1) \<longrightarrow>
      (\<exists>r w' rest. getOrCreateNote js (logged fetch) p (w, []) =
         (r, (w', read_request js (normalizePhrase p) #
                  write_request js PUT (normalizePhrase p) DEFAULT_INIT_MESSAGE # rest)))) \<and>
   (\<forall>e w1 patchErr w2.
      getNote js fetch (normalizePhrase p) w = (Inl e, w1) \<and>
      saveNote js fetch (normalizePhrase p) DEFAULT_INIT_MESSAGE w1 = (Inl patchErr, w2) \<longrightarrow>
      (\<exists>r w' rest. getOrCreateNote js (logged fetch) p (w, []) =
         (r, (w', read_request js (normalizePhrase p) #
                  write_request js PUT (normalizePhrase p) DEFAULT_INIT_MESSAGE #
                  write_request js POST (normalizePhrase p) DEFAULT_INIT_MESSAGE # rest)))) \<and>
   (\<forall>e w1 patchErr w2 postErr w3.
      getNote js fetch (normalizePhrase p) w = (Inl e, w1) \<and>
      saveNote js fetch (normalizePhrase p) DEFAULT_INIT_MESSAGE w1 = (Inl patchErr, w2) \<and>
      createNote js fetch (normalizePhrase p) DEFAULT_INIT_MESSAGE w2 = (Inl postErr, w3) \<longrightarrow>
      getOrCreateNote js (logged fetch) p (w, []) =
        (Inl (or_else postErr (or_else patchErr e)),
         (w3, [read_request js (normalizePhrase p),
               write_request js PUT (normalizePhrase p) DEFAULT_INIT_MESSAGE,
               write_request js POST (normalizePhrase p) DEFAULT_INIT_MESSAGE])) \<and>
      or_else postErr (or_else patchErr e) = postErr)"
proof (intro conjI allI impI)
  fix n w1
  assume "getNote js fetch (normalizePhrase p) w = (Inr n, w1)"
  then show "getOrCreateNote js (logged fetch) p (w, []) =
      (Inr n, (w1, [read_request js (normalizePhrase p)]))"
    by (simp add: getOrCreateNote_logged Let_def)
next
  fix e w1
  assume "getNote js fetch (normalizePhrase p) w = (Inl e, w1)"
  then show "\<exists>r w' rest. getOrCreateNote js (logged fetch) p (w, []) =
      (r, (w', read_request js (normalizePhrase p) #
               write_request js PUT (normalizePhrase p) DEFAULT_INIT_MESSAGE # rest))"
    by (auto simp: getOrCreateNote_logged Let_def after_write_logged
        split: prod.splits sum.splits)
next
  fix e w1 patchErr w2
  assume "getNote js fetch (normalizePhrase p) w = (Inl e, w1) \<and>
    saveNote js fetch (normalizePhrase p) DEFAULT_INIT_MESSAGE w1 = (Inl patchErr, w2)"
  then show "\<exists>r w' rest. getOrCreateNote js (logged fetch) p (w, []) =
      (r, (w', read_request js (normalizePhrase p) #
               write_request js PUT (normalizePhrase p) DEFAULT_INIT_MESSAGE #
               write_request js POST (normalizePhrase p) DEFAULT_INIT_MESSAGE # rest))"
    by (auto simp: getOrCreateNote_logged Let_def after_write_logged
        split: prod.splits sum.splits)
next
  fix e w1 patchErr w2 postErr w3
  assume "getNote js fetch (normalizePhrase p) w = (Inl e, w1) \<and>
    saveNote js fetch (normalizePhrase p) DEFAULT_INIT_MESSAGE w1 = (Inl patchErr, w2) \<and>
    createNote js fetch (normalizePhrase p) DEFAULT_INIT_MESSAGE w2 = (Inl postErr, w3)"
  then show "getOrCreateNote js (logged fetch) p (w, []) =
      (Inl (or_else postErr (or_else patchErr e)),
       (w3, [read_request js (normalizePhrase p),
             write_request js PUT (normalizePhrase p) DEFAULT_INIT_MESSAGE,
             write_request js POST (normalizePhrase p) DEFAULT_INIT_MESSAGE]))"
    by (simp add: getOrCreateNote_logged Let_def)
next
  fix e :: exn and patchErr postErr :: exn
  show "or_else postErr (or_else patchErr e) = postErr"
    by (rule or_else_first)
qed

theorem getOrCreateNote_protocol_witness:
  \<open>getNote demo_js scripted (normalizePhrase '' abc '')
     [Inr (text_response 200 ''OK'' ''{"message":"hello"}'')] =
     (Inr (JObj [(''message'', JStr ''hello'')]), []) \<and>
   getOrCreateNote demo_js (logged scripted) '' abc ''
     ([Inr (text_response 200 ''OK'' ''{"message":"hello"}'')], []) =
     (Inr (JObj [(''message'', JStr ''hello'')]), ([], [read_request demo_js ''abc''])) \<and>
   getNote demo_js scripted (normalizePhrase '' abc '')
     [Inr (text_response 404 ''Not Found'' ''{"error":"note not found"}''),
      Inl (Rejected ''Network request failed''),
      Inr (text_response 409 ''Conflict'' ''exists'')] =
     (Inl (Error ''404 Not Found: note not found''),
      [Inl (Rejected ''Network request failed''),
       Inr (text_response 409 ''Conflict'' ''exists'')]) \<and>
   (\<exists>r w' rest. getOrCreateNote demo_js (logged scripted) '' abc ''
     ([Inr (text_response 404 ''Not Found'' ''{"error":"note not found"}''),
       Inl (Rejected ''Network request failed''),
       Inr (text_response 409 ''Conflict'' ''exists'')], []) =
     (r, (w', read_request demo_js ''abc'' #
              write_request demo_js PUT ''abc'' DEFAULT_INIT_MESSAGE # rest))) \<and>
   saveNote demo_js scripted (normalizePhrase '' abc '') DEFAULT_INIT_MESSAGE
     [Inl (Rejected ''Network request failed''),
      Inr (text_response 409 ''Conflict'' ''exists'')] =
     (Inl (Rejected ''Network request failed''),
      [Inr (text_response 409 ''Conflict'' ''exists'')]) \<and>
   (\<exists>r w' rest. getOrCreateNote demo_js (logged scripted) '' abc ''
     ([Inr (text_response 404 ''Not Found'' ''{"error":"note not found"}''),
       Inl (Rejected ''Network request failed''),
       Inr (text_response 409 ''Conflict'' ''exists'')], []) =
     (r, (w', read_request demo_js ''abc'' #
              write_request demo_js PUT ''abc'' DEFAULT_INIT_MESSAGE #
              write_request demo_js POST ''abc'' DEFAULT_INIT_MESSAGE # rest))) \<and>
   createNote demo_js scripted (normalizePhrase '' abc '') DEFAULT_INIT_MESSAGE
     [Inr (text_response 409 ''Conflict'' ''exists'')] =
     (Inl (Error ''409 Conflict - exists''), []) \<and>
   getOrCreateNote demo_js (logged scripted) '' abc ''
     ([Inr (text_response 404 ''Not Found'' ''{"error":"note not found"}''),
       Inl (Rejected ''Network request failed''),
       Inr (text_response 409 ''Conflict'' ''exists'')], []) =
     (Inl (Error ''409 Conflict - exists''),
      ([], [read_request demo_js ''abc'',
            write_request demo_js PUT ''abc'' DEFAULT_INIT_MESSAGE,
            write_request demo_js POST ''abc'' DEFAULT_INIT_MESSAGE]))\<close>
proof -
  define p where "p = '' abc ''"
  define found where \<open>found = (Inr (text_response 200 ''OK'' ''{"message":"hello"}'') :: exn + response)\<close>
  define existing where "existing = (JObj [(''message'', JStr ''hello'')] :: json)"
  define missing where
    \<open>missing = (Inr (text_response 404 ''Not Found'' ''{"error":"note not found"}'') :: exn + response)\<close>
  define down where "down = (Inl (Rejected ''Network request failed'') :: exn + response)"
  define conflict where "conflict = (Inr (text_response 409 ''Conflict'' ''exists'') :: exn + response)"
  define e where "e = Error ''404 Not Found: note not found''"
  define patchErr where "patchErr = Rejected ''Network request failed''"
  define postErr where "postErr = Error ''409 Conflict - exists''"
  have key: "normalizePhrase p = ''abc''"
    by (simp add: p_def normalizePhrase_def trim_def isWhiteSpace_def)
  have h1: "getNote demo_js scripted (normalizePhrase p) [found] = (Inr existing, [])"
    unfolding key by (simp add: found_def existing_def eval_defs)
  have h2: "getNote demo_js scripted (normalizePhrase p) [missing, down, conflict] =
      (Inl e, [down, conflict])"
    unfolding key by (simp add: missing_def e_def eval_defs)
  have h3: "saveNote demo_js scripted (normalizePhrase p) DEFAULT_INIT_MESSAGE [down, conflict] =
      (Inl patchErr, [conflict])"
    unfolding key by (simp add: down_def patchErr_def eval_defs)
  have h4: "createNote demo_js scripted (normalizePhrase p) DEFAULT_INIT_MESSAGE [conflict] =
      (Inl postErr, [])"
    unfolding key by (simp add: conflict_def postErr_def eval_defs)
  note inst = getOrCreateNote_protocol [of demo_js scripted p "[missing, down, conflict]"]
  note c1 = getOrCreateNote_protocol [of demo_js scripted p "[found]", THEN conjunct1,
      THEN spec, THEN spec, THEN mp, OF h1]
  note c2 = inst [THEN conjunct2, THEN conjunct1, THEN spec, THEN spec, THEN mp, OF h2]
  have h23: "getNote demo_js scripted (normalizePhrase p) [missing, down, conflict] =
      (Inl e, [down, conflict]) \<and>
    saveNote demo_js scripted (normalizePhrase p) DEFAULT_INIT_MESSAGE [down, conflict] =
      (Inl patchErr, [conflict])"
    using h2 h3 by (intro conjI)
  note c3 = inst [THEN conjunct2, THEN conjunct2, THEN conjunct1,
      THEN spec, THEN spec, THEN spec, THEN spec, THEN mp, OF h23]
  have h234: "getNote demo_js scripted (normalizePhrase p) [missing, down, conflict] =
      (Inl e, [down, conflict]) \<and>
    saveNote demo_js scripted (normalizePhrase p) DEFAULT_INIT_MESSAGE [down, conflict] =
      (Inl patchErr, [conflict]) \<and>
    createNote demo_js scripted (normalizePhrase p) DEFAULT_INIT_MESSAGE [conflict] =
      (Inl postErr, [])"
    using h2 h3 h4 by (intro conjI)
  note c4 = inst [THEN conjunct2, THEN conjunct2, THEN conjunct2,
      THEN spec, THEN spec, THEN spec, THEN spec, THEN spec, THEN spec, THEN mp, OF h234]
  note r4 = c4 [THEN conjunct1, unfolded c4 [THEN conjunct2]]
  have "getNote demo_js scripted (normalizePhrase p) [found] = (Inr existing, []) \<and>
    getOrCreateNote demo_js (logged scripted) p ([found], []) =
      (Inr existing, ([], [read_request demo_js (normalizePhrase p)])) \<and>
    getNote demo_js scripted (normalizePhrase p) [missing, down, conflict] =
      (Inl e, [down, conflict]) \<and>
    (\<exists>r w' rest. getOrCreateNote demo_js (logged scripted) p ([missing, down, conflict], []) =
      (r, (w', read_request demo_js (normalizePhrase p) #
               write_request demo_js PUT (normalizePhrase p) DEFAULT_INIT_MESSAGE # rest))) \<and>
    saveNote demo_js scripted (normalizePhrase p) DEFAULT_INIT_MESSAGE [down, conflict] =
      (Inl patchErr, [conflict]) \<and>
    (\<exists>r w' rest. getOrCreateNote demo_js (logged scripted) p ([missing, down, conflict], []) =
      (r, (w', read_request demo_js (normalizePhrase p) #
               write_request demo_js PUT (normalizePhrase p) DEFAULT_INIT_MESSAGE #
               write_request demo_js POST (normalizePhrase p) DEFAULT_INIT_MESSAGE # rest))) \<and>
    createNote demo_js scripted (normalizePhrase p) DEFAULT_INIT_MESSAGE [conflict] =
      (Inl postErr, []) \<and>
    getOrCreateNote demo_js (logged scripted) p ([missing, down, conflict], []) =
      (Inl postErr,
       ([], [read_request demo_js (normalizePhrase p),
             write_request demo_js PUT (normalizePhrase p) DEFAULT_INIT_MESSAGE,
             write_request demo_js POST (normalizePhrase p) DEFAULT_INIT_MESSAGE]))"
    using h1 c1 h2 c2 h3 c3 h4 r4 by (intro conjI)
  then show ?thesis
    unfolding key [symmetric]
    unfolding p_def found_def existing_def missing_def down_def conflict_def e_def patchErr_def
      postErr_def .
qed

subsection \<open>After a successful write\<close>

lemma truthy_of_message: "get_prop v name = Some x \<Longrightarrow> truthy (Some v)"
  by (cases v) simp_all

lemma getOrCreateNote_cases:
  "getOrCreateNote js fetch p w =
     (case getNote js fetch (normalizePhrase p) w of
        (Inr existing, w1) \<Rightarrow> (Inr existing, w1)
      | (Inl e, w1) \<Rightarrow>
         (case saveNote js fetch (normalizePhrase p) DEFAULT_INIT_MESSAGE w1 of
            (Inr v, w2) \<Rightarrow> after_write js fetch (normalizePhrase p) v w2
          | (Inl patchErr, w2) \<Rightarrow>
             (case createNote js fetch (normalizePhrase p) DEFAULT_INIT_MESSAGE w2 of
                (Inr v, w3) \<Rightarrow> after_write js fetch (normalizePhrase p) v w3
              | (Inl postErr, w3) \<Rightarrow> (Inl postErr, w3))))"
  by (simp add: getOrCreateNote_def Let_def or_else_first split: prod.splits sum.splits)

text \<open>
  Claim C2. With \<open>key\<close> the normalised passphrase: when the read fails and the upsert
  succeeds with a note, that note is returned as it is, and the requests that the resolver
  has issued are the read and the upsert, with no read after the write; when the upsert
  fails and the create succeeds with a note, that note is returned as it is, and the
  requests are the read, the upsert and the create, with no read after the write. The
  world is left as the write left it, so what a read of the key would answer after the
  write has no part in the result. A note is an object, and the condition of line 93 holds
  of every object, the empty one included; the statement is made for every value of which
  that condition holds.
\<close>

theorem getOrCreateNote_trusts_write:
  "(\<forall>e w1 v w2.
      getNote js fetch (normalizePhrase p) w = (Inl e, w1) \<and>
      saveNote js fetch (normalizePhrase p) DEFAULT_INIT_MESSAGE w1 = (Inr v, w2) \<and>
      truthy (Some v) \<longrightarrow>
      getOrCreateNote js (logged fetch) p (w, []) =
        (Inr v, (w2, [read_request js (normalizePhrase p),
                      write_request js PUT (normalizePhrase p) DEFAULT_INIT_MESSAGE])) \<and>
      getOrCreateNote js fetch p w = (Inr v, w2)) \<and>
   (\<forall>e w1 patchErr w2 v w3.
      getNote js fetch (normalizePhrase p) w = (Inl e, w1) \<and>
      saveNote js fetch (normalizePhrase p) DEFAULT_INIT_MESSAGE w1 = (Inl patchErr, w2) \<and>
      createNote js fetch (normalizePhrase p) DEFAULT_INIT_MESSAGE w2 = (Inr v, w3) \<and>
      truthy (Some v) \<longrightarrow>
      getOrCreateNote js (logged fetch) p (w, []) =
        (Inr v, (w3, [read_request js (normalizePhrase p),
                      write_request js PUT (normalizePhrase p) DEFAULT_INIT_MESSAGE,
                      write_request js POST (normalizePhrase p) DEFAULT_INIT_MESSAGE])) \<and>
      getOrCreateNote js fetch p w = (Inr v, w3)) \<and>
   (\<forall>kvs. truthy (Some (JObj kvs)))"
proof (intro conjI allI impI)
  fix e w1 v w2
  assume "getNote js fetch (normalizePhrase p) w = (Inl e, w1) \<and>
    saveNote js fetch (normalizePhrase p) DEFAULT_INIT_MESSAGE w1 = (Inr v, w2) \<and>
    truthy (Some v)"
  then have h: "getNote js fetch (normalizePhrase p) w = (Inl e, w1)"
    "saveNote js fetch (normalizePhrase p) DEFAULT_INIT_MESSAGE w1 = (Inr v, w2)"
    "truthy (Some v)"
    by simp_all
  show "getOrCreateNote js (logged fetch) p (w, []) =
      (Inr v, (w2, [read_request js (normalizePhrase p),
                    write_request js PUT (normalizePhrase p) DEFAULT_INIT_MESSAGE]))"
    using h by (simp add: getOrCreateNote_logged after_write_logged Let_def)
  show "getOrCreateNote js fetch p w = (Inr v, w2)"
    using h by (simp add: getOrCreateNote_cases after_write_def)
next
  fix e w1 patchErr w2 v w3
  assume "getNote js fetch (normalizePhrase p) w = (Inl e, w1) \<and>
    saveNote js fetch (normalizePhrase p) DEFAULT_INIT_MESSAGE w1 = (Inl patchErr, w2) \<and>
    createNote js fetch (normalizePhrase p) DEFAULT_INIT_MESSAGE w2 = (Inr v, w3) \<and>
    truthy (Some v)"
  then have h: "getNote js fetch (normalizePhrase p) w = (Inl e, w1)"
    "saveNote js fetch (normalizePhrase p) DEFAULT_INIT_MESSAGE w1 = (Inl patchErr, w2)"
    "createNote js fetch (normalizePhrase p) DEFAULT_INIT_MESSAGE w2 = (Inr v, w3)"
    "truthy (Some v)"
    by simp_all
  show "getOrCreateNote js (logged fetch) p (w, []) =
      (Inr v, (w3, [read_request js (normalizePhrase p),
                    write_request js PUT (normalizePhrase p) DEFAULT_INIT_MESSAGE,
                    write_request js POST (normalizePhrase p) DEFAULT_INIT_MESSAGE]))"
    using h by (simp add: getOrCreateNote_logged after_write_logged Let_def)
  show "getOrCreateNote js fetch p w = (Inr v, w3)"
    using h by (simp add: getOrCreateNote_cases after_write_def)
next
  fix kvs
  show "truthy (Some (JObj kvs))"
    by simp
qed

theorem getOrCreateNote_trusts_write_witness:
  \<open>getNote demo_js scripted (normalizePhrase '' abc '')
     [Inr (text_response 500 ''Internal Server Error'' ''boom''),
      Inr (text_response 200 ''OK'' []),
      Inr (text_response 503 ''Service Unavailable'' ''down'')] =
     (Inl (Error ''500 Internal Server Error - boom''),
      [Inr (text_response 200 ''OK'' []),
       Inr (text_response 503 ''Service Unavailable'' ''down'')]) \<and>
   saveNote demo_js scripted (normalizePhrase '' abc '') DEFAULT_INIT_MESSAGE
     [Inr (text_response 200 ''OK'' []),
      Inr (text_response 503 ''Service Unavailable'' ''down'')] =
     (Inr (JObj []), [Inr (text_response 503 ''Service Unavailable'' ''down'')]) \<and>
   truthy (Some (JObj [])) \<and>
   getNote demo_js scripted ''abc'' [Inr (text_response 503 ''Service Unavailable'' ''down'')] =
     (Inl (Error ''503 Service Unavailable - down''), []) \<and>
   getOrCreateNote demo_js (logged scripted) '' abc ''
     ([Inr (text_response 500 ''Internal Server Error'' ''boom''),
       Inr (text_response 200 ''OK'' []),
       Inr (text_response 503 ''Service Unavailable'' ''down'')], []) =
     (Inr (JObj []),
      ([Inr (text_response 503 ''Service Unavailable'' ''down'')],
       [read_request demo_js ''abc'',
        write_request demo_js PUT ''abc'' DEFAULT_INIT_MESSAGE])) \<and>
   getNote demo_js scripted (normalizePhrase '' abc '')
     [Inr (text_response 500 ''Internal Server Error'' ''boom''),
      Inl (Rejected ''Network request failed''),
      Inr (text_response 201 ''Created'' ''{"message":"hello"}''),
      Inr (text_response 503 ''Service Unavailable'' ''down'')] =
     (Inl (Error ''500 Internal Server Error - boom''),
      [Inl (Rejected ''Network request failed''),
       Inr (text_response 201 ''Created'' ''{"message":"hello"}''),
       Inr (text_response 503 ''Service Unavailable'' ''down'')]) \<and>
   saveNote demo_js scripted (normalizePhrase '' abc '') DEFAULT_INIT_MESSAGE
     [Inl (Rejected ''Network request failed''),
      Inr (text_response 201 ''Created'' ''{"message":"hello"}''),
      Inr (text_response 503 ''Service Unavailable'' ''down'')] =
     (Inl (Rejected ''Network request failed''),
      [Inr (text_response 201 ''Created'' ''{"message":"hello"}''),
       Inr (text_response 503 ''Service Unavailable'' ''down'')]) \<and>
   createNote demo_js scripted (normalizePhrase '' abc '') DEFAULT_INIT_MESSAGE
     [Inr (text_response 201 ''Created'' ''{"message":"hello"}''),
      Inr (text_response 503 ''Service Unavailable'' ''down'')] =
     (Inr (JObj [(''message'', JStr ''hello'')]),
      [Inr (text_response 503 ''Service Unavailable'' ''down'')]) \<and>
   truthy (Some (JObj [(''message'', JStr ''hello'')])) \<and>
   getOrCreateNote demo_js (logged scripted) '' abc ''
     ([Inr (text_response 500 ''Internal Server Error'' ''boom''),
       Inl (Rejected ''Network request failed''),
       Inr (text_response 201 ''Created'' ''{"message":"hello"}''),
       Inr (text_response 503 ''Service Unavailable'' ''down'')], []) =
     (Inr (JObj [(''message'', JStr ''hello'')]),
      ([Inr (text_response 503 ''Service Unavailable'' ''down'')],
       [read_request demo_js ''abc'',
        write_request demo_js PUT ''abc'' DEFAULT_INIT_MESSAGE,
        write_request demo_js POST ''abc'' DEFAULT_INIT_MESSAGE]))\<close>
proof -
  define p where "p = '' abc ''"
  define broken where
    "broken = (Inr (text_response 500 ''Internal Server Error'' ''boom'') :: exn + response)"
  define saved where "saved = (Inr (text_response 200 ''OK'' []) :: exn + response)"
  define down where "down = (Inl (Rejected ''Network request failed'') :: exn + response)"
  define created where
    \<open>created = (Inr (text_response 201 ''Created'' ''{"message":"hello"}'') :: exn + response)\<close>
  define later where
    "later = (Inr (text_response 503 ''Service Unavailable'' ''down'') :: exn + response)"
  define e where "e = Error ''500 Internal Server Error - boom''"
  define patchErr where "patchErr = Rejected ''Network request failed''"
  define v where "v = (JObj [] :: json)"
  define v' where "v' = (JObj [(''message'', JStr ''hello'')] :: json)"
  have key: "normalizePhrase p = ''abc''"
    by (simp add: p_def normalizePhrase_def trim_def isWhiteSpace_def)
  have t: "truthy (Some v)" and t': "truthy (Some v')"
    by (simp_all add: v_def v'_def)
  have stale: "getNote demo_js scripted (normalizePhrase p) [later] =
      (Inl (Error ''503 Service Unavailable - down''), [])"
    unfolding key by (simp add: later_def eval_defs)
  have h1: "getNote demo_js scripted (normalizePhrase p) [broken, saved, later] =
      (Inl e, [saved, later])"
    unfolding key by (simp add: broken_def e_def eval_defs)
  have h2: "saveNote demo_js scripted (normalizePhrase p) DEFAULT_INIT_MESSAGE [saved, later] =
      (Inr v, [later])"
    unfolding key by (simp add: saved_def v_def eval_defs)
  have h: "getNote demo_js scripted (normalizePhrase p) [broken, saved, later] =
      (Inl e, [saved, later]) \<and>
    saveNote demo_js scripted (normalizePhrase p) DEFAULT_INIT_MESSAGE [saved, later] =
      (Inr v, [later]) \<and>
    truthy (Some v)"
    using h1 h2 t by (intro conjI)
  note r = getOrCreateNote_trusts_write [of demo_js scripted p "[broken, saved, later]",
      THEN conjunct1, THEN spec, THEN spec, THEN spec, THEN spec, THEN mp, OF h,
      THEN conjunct1]
  have g1: "getNote demo_js scripted (normalizePhrase p) [broken, down, created, later] =
      (Inl e, [down, created, later])"
    unfolding key by (simp add: broken_def e_def eval_defs)
  have g2: "saveNote demo_js scripted (normalizePhrase p) DEFAULT_INIT_MESSAGE
      [down, created, later] = (Inl patchErr, [created, later])"
    unfolding key by (simp add: down_def patchErr_def eval_defs)
  have g3: "createNote demo_js scripted (normalizePhrase p) DEFAULT_INIT_MESSAGE
      [created, later] = (Inr v', [later])"
    unfolding key by (simp add: created_def v'_def eval_defs)
  have g: "getNote demo_js scripted (normalizePhrase p) [broken, down, created, later] =
      (Inl e, [down, created, later]) \<and>
    saveNote demo_js scripted (normalizePhrase p) DEFAULT_INIT_MESSAGE
      [down, created, later] = (Inl patchErr, [created, later]) \<and>
    createNote demo_js scripted (normalizePhrase p) DEFAULT_INIT_MESSAGE
      [created, later] = (Inr v', [later]) \<and>
    truthy (Some v')"
    using g1 g2 g3 t' by (intro conjI)
  note r' = getOrCreateNote_trusts_write [of demo_js scripted p "[broken, down, created, later]",
      THEN conjunct2, THEN conjunct1, THEN spec, THEN spec, THEN spec, THEN spec, THEN spec,
      THEN spec, THEN mp, OF g, THEN conjunct1]
  have
    "getNote demo_js scripted (normalizePhrase p) [broken, saved, later] =
      (Inl e, [saved, later]) \<and>
     saveNote demo_js scripted (normalizePhrase p) DEFAULT_INIT_MESSAGE [saved, later] =
      (Inr v, [later]) \<and>
     truthy (Some v) \<and>
     getNote demo_js scripted (normalizePhrase p) [later] =
      (Inl (Error ''503 Service Unavailable - down''), []) \<and>
     getOrCreateNote demo_js (logged scripted) p ([broken, saved, later], []) =
      (Inr v, ([later], [read_request demo_js (normalizePhrase p),
                         write_request demo_js PUT (normalizePhrase p) DEFAULT_INIT_MESSAGE])) \<and>
     getNote demo_js scripted (normalizePhrase p) [broken, down, created, later] =
      (Inl e, [down, created, later]) \<and>
     saveNote demo_js scripted (normalizePhrase p) DEFAULT_INIT_MESSAGE
      [down, created, later] = (Inl patchErr, [created, later]) \<and>
     createNote demo_js scripted (normalizePhrase p) DEFAULT_INIT_MESSAGE
      [created, later] = (Inr v', [later]) \<and>
     truthy (Some v') \<and>
     getOrCreateNote demo_js (logged scripted) p ([broken, down, created, later], []) =
      (Inr v', ([later], [read_request demo_js (normalizePhrase p),
                          write_request demo_js PUT (normalizePhrase p) DEFAULT_INIT_MESSAGE,
                          write_request demo_js POST (normalizePhrase p) DEFAULT_INIT_MESSAGE]))"
    using h1 h2 t stale r g1 g2 g3 t' r' by (intro conjI)
  then show ?thesis
    unfolding key [symmetric]
    unfolding p_def broken_def saved_def down_def created_def later_def e_def patchErr_def
      v_def v'_def .
qed

text \<open>
  The remaining case is the safety net of lines 94 and 95, for a write that resolves
  without a note: a value of which the condition of line 93 does not hold (\<^verbatim>\<open>null\<close>,
  \<^verbatim>\<open>false\<close>, \<^verbatim>\<open>0\<close>, the empty string) leads to a final read, whose outcome is the
  outcome of the resolver. An upsert answered with status 200 and the body \<^verbatim>\<open>null\<close> is
  such a write.
\<close>

lemma getOrCreateNote_safety_net:
  "getNote js fetch (normalizePhrase p) w = (Inl e, w1) \<Longrightarrow>
   saveNote js fetch (normalizePhrase p) DEFAULT_INIT_MESSAGE w1 = (Inr v, w2) \<Longrightarrow>
   \<not> truthy (Some v) \<Longrightarrow>
   getOrCreateNote js (logged fetch) p (w, []) =
     (case getNote js fetch (normalizePhrase p) w2 of
        (r, w') \<Rightarrow>
          (r, (w', [read_request js (normalizePhrase p),
                    write_request js PUT (normalizePhrase p) DEFAULT_INIT_MESSAGE,
                    read_request js (normalizePhrase p)])))"
  by (simp add: getOrCreateNote_logged after_write_logged normalizePhrase_idem Let_def)

lemma getOrCreateNote_safety_net_example:
  \<open>getOrCreateNote demo_js (logged scripted) ''abc''
     ([Inr (text_response 404 ''Not Found'' ''{"error":"note not found"}''),
       Inr (text_response 200 ''OK'' ''null''),
       Inr (text_response 500 ''Internal Server Error'' ''boom'')], []) =
     (Inl (Error ''500 Internal Server Error - boom''),
      ([], [read_request demo_js ''abc'',
            write_request demo_js PUT ''abc'' DEFAULT_INIT_MESSAGE,
            read_request demo_js ''abc'']))\<close>
  by (simp add: eval_defs)

subsection \<open>The default message\<close>

lemma body_write_request:
  "body (write_request js m key msg) =
     TextBody (JSON_stringify js (JObj [(''message'', JStr msg)]))"
  by (simp add: write_request_def)

lemma http_method_read_request: "http_method (read_request js key) = GET"
  by (simp add: read_request_def)

lemma writes_carry_default:
  "\<forall>req\<in>set (snd (snd (getOrCreateNote js (logged fetch) p (w, [])))).
      http_method req \<noteq> GET \<longrightarrow>
      body req = TextBody (JSON_stringify js (JObj [(''message'', JStr DEFAULT_INIT_MESSAGE)]))"
  by (auto simp: getOrCreateNote_logged after_write_logged Let_def body_write_request
      http_method_read_request split: prod.splits sum.splits)

text \<open>
  Claim C8, as the code has it. The placeholder is a fixed non-empty string, and every
  write that the resolver sends carries it as the message. When the read fails and the
  upsert (or, after a failed upsert, the create) resolves to a value whose message is the
  placeholder, the resolver succeeds with that value, so with a note whose message is the
  placeholder. The resolver returns what the write resolved to and does not look at its
  message.
\<close>

theorem getOrCreateNote_default_message:
  "DEFAULT_INIT_MESSAGE = ''Welcome to your new secure note!'' \<and> DEFAULT_INIT_MESSAGE \<noteq> [] \<and>
   (\<forall>req\<in>set (snd (snd (getOrCreateNote js (logged fetch) p (w, [])))).
      http_method req \<noteq> GET \<longrightarrow>
      body req = TextBody (JSON_stringify js (JObj [(''message'', JStr DEFAULT_INIT_MESSAGE)]))) \<and>
   (\<forall>e w1 v w2.
      getNote js fetch (normalizePhrase p) w = (Inl e, w1) \<and>
      saveNote js fetch (normalizePhrase p) DEFAULT_INIT_MESSAGE w1 = (Inr v, w2) \<and>
      get_prop v ''message'' = Some (JStr DEFAULT_INIT_MESSAGE) \<longrightarrow>
      getOrCreateNote js fetch p w = (Inr v, w2)) \<and>
   (\<forall>e w1 patchErr w2 v w3.
      getNote js fetch (normalizePhrase p) w = (Inl e, w1) \<and>
      saveNote js fetch (normalizePhrase p) DEFAULT_INIT_MESSAGE w1 = (Inl patchErr, w2) \<and>
      createNote js fetch (normalizePhrase p) DEFAULT_INIT_MESSAGE w2 = (Inr v, w3) \<and>
      get_prop v ''message'' = Some (JStr DEFAULT_INIT_MESSAGE) \<longrightarrow>
      getOrCreateNote js fetch p w = (Inr v, w3))"
proof (intro conjI allI impI)
  show "DEFAULT_INIT_MESSAGE = ''Welcome to your new secure note!''"
    by (simp add: DEFAULT_INIT_MESSAGE_def)
  show "DEFAULT_INIT_MESSAGE \<noteq> []"
    by (simp add: DEFAULT_INIT_MESSAGE_def)
  show "\<forall>req\<in>set (snd (snd (getOrCreateNote js (logged fetch) p (w, [])))).
      http_method req \<noteq> GET \<longrightarrow>
      body req = TextBody (JSON_stringify js (JObj [(''message'', JStr DEFAULT_INIT_MESSAGE)]))"
    by (rule writes_carry_default)
next
  fix e w1 v w2
  assume h: "getNote js fetch (normalizePhrase p) w = (Inl e, w1) \<and>
    saveNote js fetch (normalizePhrase p) DEFAULT_INIT_MESSAGE w1 = (Inr v, w2) \<and>
    get_prop v ''message'' = Some (JStr DEFAULT_INIT_MESSAGE)"
  then have "truthy (Some v)"
    by (blast intro: truthy_of_message)
  with h show "getOrCreateNote js fetch p w = (Inr v, w2)"
    by (simp add: getOrCreateNote_cases after_write_def)
next
  fix e w1 patchErr w2 v w3
  assume h: "getNote js fetch (normalizePhrase p) w = (Inl e, w1) \<and>
    saveNote js fetch (normalizePhrase p) DEFAULT_INIT_MESSAGE w1 = (Inl patchErr, w2) \<and>
    createNote js fetch (normalizePhrase p) DEFAULT_INIT_MESSAGE w2 = (Inr v, w3) \<and>
    get_prop v ''message'' = Some (JStr DEFAULT_INIT_MESSAGE)"
  then have "truthy (Some v)"
    by (blast intro: truthy_of_message)
  with h show "getOrCreateNote js fetch p w = (Inr v, w3)"
    by (simp add: getOrCreateNote_cases after_write_def)
qed

theorem getOrCreateNote_default_message_witness:
  \<open>getNote demo_js scripted (normalizePhrase '' abc '')
     [Inr (text_response 404 ''Not Found'' ''{"error":"note not found"}''),
      Inr (text_response 200 ''OK'' ''{"message":"Welcome to your new secure note!"}'')] =
     (Inl (Error ''404 Not Found: note not found''),
      [Inr (text_response 200 ''OK'' ''{"message":"Welcome to your new secure note!"}'')]) \<and>
   saveNote demo_js scripted (normalizePhrase '' abc '') DEFAULT_INIT_MESSAGE
     [Inr (text_response 200 ''OK'' ''{"message":"Welcome to your new secure note!"}'')] =
     (Inr (JObj [(''message'', JStr DEFAULT_INIT_MESSAGE)]), []) \<and>
   get_prop (JObj [(''message'', JStr DEFAULT_INIT_MESSAGE)] :: json) ''message'' =
     Some (JStr DEFAULT_INIT_MESSAGE) \<and>
   getOrCreateNote demo_js scripted '' abc ''
     [Inr (text_response 404 ''Not Found'' ''{"error":"note not found"}''),
      Inr (text_response 200 ''OK'' ''{"message":"Welcome to your new secure note!"}'')] =
     (Inr (JObj [(''message'', JStr DEFAULT_INIT_MESSAGE)]), []) \<and>
   getNote demo_js scripted (normalizePhrase '' abc '')
     [Inr (text_response 404 ''Not Found'' ''{"error":"note not found"}''),
      Inr (text_response 405 ''Method Not Allowed'' []),
      Inr (text_response 201 ''Created'' ''{"message":"Welcome to your new secure note!"}'')] =
     (Inl (Error ''404 Not Found: note not found''),
      [Inr (text_response 405 ''Method Not Allowed'' []),
       Inr (text_response 201 ''Created'' ''{"message":"Welcome to your new secure note!"}'')]) \<and>
   saveNote demo_js scripted (normalizePhrase '' abc '') DEFAULT_INIT_MESSAGE
     [Inr (text_response 405 ''Method Not Allowed'' []),
      Inr (text_response 201 ''Created'' ''{"message":"Welcome to your new secure note!"}'')] =
     (Inl (Error ''405 Method Not Allowed''),
      [Inr (text_response 201 ''Created'' ''{"message":"Welcome to your new secure note!"}'')]) \<and>
   createNote demo_js scripted (normalizePhrase '' abc '') DEFAULT_INIT_MESSAGE
     [Inr (text_response 201 ''Created'' ''{"message":"Welcome to your new secure note!"}'')] =
     (Inr (JObj [(''message'', JStr DEFAULT_INIT_MESSAGE)]), []) \<and>
   getOrCreateNote demo_js scripted '' abc ''
     [Inr (text_response 404 ''Not Found'' ''{"error":"note not found"}''),
      Inr (text_response 405 ''Method Not Allowed'' []),
      Inr (text_response 201 ''Created'' ''{"message":"Welcome to your new secure note!"}'')] =
     (Inr (JObj [(''message'', JStr DEFAULT_INIT_MESSAGE)]), []) \<and>
   write_request demo_js PUT ''abc'' DEFAULT_INIT_MESSAGE \<in>
     set (snd (snd (getOrCreateNote demo_js (logged scripted) '' abc ''
       ([Inr (text_response 404 ''Not Found'' ''{"error":"note not found"}''),
         Inr (text_response 200 ''OK'' ''{"message":"Welcome to your new secure note!"}'')],
        [])))) \<and>
   http_method (write_request demo_js PUT ''abc'' DEFAULT_INIT_MESSAGE) \<noteq> GET \<and>
   body (write_request demo_js PUT ''abc'' DEFAULT_INIT_MESSAGE) =
     TextBody ''{"message":"Welcome to your new secure note!"}''\<close>
proof -
  define p where "p = '' abc ''"
  define missing where
    \<open>missing = (Inr (text_response 404 ''Not Found'' ''{"error":"note not found"}'') :: exn + response)\<close>
  define saved where
    \<open>saved = (Inr (text_response 200 ''OK'' ''{"message":"Welcome to your new secure note!"}'')
       :: exn + response)\<close>
  define refused where
    "refused = (Inr (text_response 405 ''Method Not Allowed'' []) :: exn + response)"
  define created where
    \<open>created = (Inr (text_response 201 ''Created'' ''{"message":"Welcome to your new secure note!"}'')
       :: exn + response)\<close>
  define e where "e = Error ''404 Not Found: note not found''"
  define patchErr where "patchErr = Error ''405 Method Not Allowed''"
  define v where "v = (JObj [(''message'', JStr DEFAULT_INIT_MESSAGE)] :: json)"
  define upsert where "upsert = write_request demo_js PUT (normalizePhrase p) DEFAULT_INIT_MESSAGE"
  have key: "normalizePhrase p = ''abc''"
    by (simp add: p_def normalizePhrase_def trim_def isWhiteSpace_def)
  have h1: "getNote demo_js scripted (normalizePhrase p) [missing, saved] = (Inl e, [saved])"
    unfolding key by (simp add: missing_def e_def eval_defs)
  have h2: "saveNote demo_js scripted (normalizePhrase p) DEFAULT_INIT_MESSAGE [saved] =
      (Inr v, [])"
    unfolding key by (simp add: saved_def v_def eval_defs)
  have h3: "get_prop v ''message'' = Some (JStr DEFAULT_INIT_MESSAGE)"
    by (simp add: v_def)
  have h: "getNote demo_js scripted (normalizePhrase p) [missing, saved] = (Inl e, [saved]) \<and>
    saveNote demo_js scripted (normalizePhrase p) DEFAULT_INIT_MESSAGE [saved] = (Inr v, []) \<and>
    get_prop v ''message'' = Some (JStr DEFAULT_INIT_MESSAGE)"
    using h1 h2 h3 by (intro conjI)
  note inst = getOrCreateNote_default_message [of demo_js scripted p "[missing, saved]"]
  note c = inst [THEN conjunct2, THEN conjunct2, THEN conjunct2, THEN conjunct1,
      THEN spec, THEN spec, THEN spec, THEN spec, THEN mp, OF h]
  have g1: "getNote demo_js scripted (normalizePhrase p) [missing, refused, created] =
      (Inl e, [refused, created])"
    unfolding key by (simp add: missing_def e_def eval_defs)
  have g2: "saveNote demo_js scripted (normalizePhrase p) DEFAULT_INIT_MESSAGE [refused, created] =
      (Inl patchErr, [created])"
    unfolding key by (simp add: refused_def patchErr_def eval_defs)
  have g3: "createNote demo_js scripted (normalizePhrase p) DEFAULT_INIT_MESSAGE [created] =
      (Inr v, [])"
    unfolding key by (simp add: created_def v_def eval_defs)
  have g: "getNote demo_js scripted (normalizePhrase p) [missing, refused, created] =
      (Inl e, [refused, created]) \<and>
    saveNote demo_js scripted (normalizePhrase p) DEFAULT_INIT_MESSAGE [refused, created] =
      (Inl patchErr, [created]) \<and>
    createNote demo_js scripted (normalizePhrase p) DEFAULT_INIT_MESSAGE [created] = (Inr v, []) \<and>
    get_prop v ''message'' = Some (JStr DEFAULT_INIT_MESSAGE)"
    using g1 g2 g3 h3 by (intro conjI)
  note c' = getOrCreateNote_default_message [of demo_js scripted p "[missing, refused, created]",
      THEN conjunct2, THEN conjunct2, THEN conjunct2, THEN conjunct2,
      THEN spec, THEN spec, THEN spec, THEN spec, THEN spec, THEN spec, THEN mp, OF g]
  have mem: "upsert \<in> set (snd (snd (getOrCreateNote demo_js (logged scripted) p
      ([missing, saved], []))))"
    using h1 h2 h3
    by (simp add: getOrCreateNote_logged after_write_logged Let_def upsert_def
        truthy_of_message [OF h3])
  have meth: "http_method upsert \<noteq> GET"
    by (simp add: upsert_def write_request_def)
  note b = inst [THEN conjunct2, THEN conjunct2, THEN conjunct1, THEN bspec, OF mem,
      THEN mp, OF meth]
  have rendered: \<open>JSON_stringify demo_js (JObj [(''message'', JStr DEFAULT_INIT_MESSAGE)]) =
      ''{"message":"Welcome to your new secure note!"}''\<close>
    by (simp add: demo_js_def DEFAULT_INIT_MESSAGE_def)
  have "getNote demo_js scripted (normalizePhrase p) [missing, saved] = (Inl e, [saved]) \<and>
    saveNote demo_js scripted (normalizePhrase p) DEFAULT_INIT_MESSAGE [saved] = (Inr v, []) \<and>
    get_prop v ''message'' = Some (JStr DEFAULT_INIT_MESSAGE) \<and>
    getOrCreateNote demo_js scripted p [missing, saved] = (Inr v, []) \<and>
    getNote demo_js scripted (normalizePhrase p) [missing, refused, created] =
      (Inl e, [refused, created]) \<and>
    saveNote demo_js scripted (normalizePhrase p) DEFAULT_INIT_MESSAGE [refused, created] =
      (Inl patchErr, [created]) \<and>
    createNote demo_js scripted (normalizePhrase p) DEFAULT_INIT_MESSAGE [created] = (Inr v, []) \<and>
    getOrCreateNote demo_js scripted p [missing, refused, created] = (Inr v, []) \<and>
    upsert \<in> set (snd (snd (getOrCreateNote demo_js (logged scripted) p
      ([missing, saved], [])))) \<and>
    http_method upsert \<noteq> GET \<and>
    body upsert = TextBody (JSON_stringify demo_js (JObj [(''message'', JStr DEFAULT_INIT_MESSAGE)]))"
    using h1 h2 h3 c g1 g2 g3 c' mem meth b by (intro conjI)
  then show ?thesis
    unfolding rendered upsert_def
    unfolding key [symmetric]
    unfolding p_def missing_def saved_def refused_def created_def e_def patchErr_def v_def .
qed

text \<open>
  The claim as the specification words it fails on the code: after a failed read, an
  upsert answered with status 204 and an empty body succeeds, and the resolver succeeds
  with the empty object, which has no message.
\<close>

theorem getOrCreateNote_default_message_counterexample:
  \<open>getNote demo_js scripted ''abc''
     [Inr (text_response 404 ''Not Found'' ''{"error":"note not found"}''),
      Inr (text_response 204 ''No Content'' [])] =
     (Inl (Error ''404 Not Found: note not found''),
      [Inr (text_response 204 ''No Content'' [])]) \<and>
   saveNote demo_js scripted ''abc'' DEFAULT_INIT_MESSAGE
     [Inr (text_response 204 ''No Content'' [])] = (Inr (JObj []), []) \<and>
   getOrCreateNote demo_js scripted ''abc''
     [Inr (text_response 404 ''Not Found'' ''{"error":"note not found"}''),
      Inr (text_response 204 ''No Content'' [])] = (Inr (JObj []), []) \<and>
   get_prop (JObj [] :: json) ''message'' \<noteq> Some (JStr DEFAULT_INIT_MESSAGE)\<close>
  by (simp add: eval_defs)

section \<open>The image subsystem: Base64 in chunks\<close>


text \<open>The test vectors of RFC 4648, section 10.\<close>

lemma btoa_rfc4648:
  "btoa [] = []" "btoa ''f'' = ''Zg==''" "btoa ''fo'' = ''Zm8=''" "btoa ''foo'' = ''Zm9v''"
  "btoa ''foob'' = ''Zm9vYg==''" "btoa ''fooba'' = ''Zm9vYmE=''" "btoa ''foobar'' = ''Zm9vYmFy''"
  by (simp_all add: base64_digit_def base64_alphabet_def Let_def)










section \<open>Every operation normalises the passphrase\<close>

lemma operations_depend_on_key:
  assumes "normalizePhrase q = normalizePhrase p"
  shows "getNote js fetch q w = getNote js fetch p w"
    and "getOrCreateNote js fetch q w = getOrCreateNote js fetch p w"
    and "createNote js fetch q m w = createNote js fetch p m w"
    and "saveNote js fetch q m w = saveNote js fetch p m w"
    and "updateNote js fetch q m w = updateNote js fetch p m w"
    and "getImage js fetch q w = getImage js fetch p w"
    and "deleteImage js fetch q w = deleteImage js fetch p w"
    and "uploadImageFromUrl js fetch q u w = uploadImageFromUrl js fetch p u w"
  using assms
  by (simp_all add: getNote_def getOrCreateNote_def createNote_def saveNote_def updateNote_def
      getImage_def deleteImage_def uploadImageFromUrl_def)

lemma normalizePhrase_padded:
  assumes "\<forall>c\<in>set pre. isWhiteSpace c" and "\<forall>c\<in>set post. isWhiteSpace c"
  shows "normalizePhrase (pre @ p @ post) = normalizePhrase p"
  using assms by (simp add: normalizePhrase_def trim_append_ws)

text \<open>
  Claim C10. Each of the eight public operations computes \<^verbatim>\<open>normalizePhrase\<close> of the
  passphrase first and uses nothing else of it: on a passphrase and on the trimmed
  passphrase it does the same, and so it does on the passphrase with white space added in
  front and behind. Normalising twice is normalising once, so the second normalisation
  inside \<^verbatim>\<open>getOrCreateNote\<close> and the operations it calls changes nothing.
\<close>

theorem operations_normalize_phrase:
  "(getNote js fetch (trim p) w = getNote js fetch p w \<and>
    getOrCreateNote js fetch (trim p) w = getOrCreateNote js fetch p w \<and>
    createNote js fetch (trim p) m w = createNote js fetch p m w \<and>
    saveNote js fetch (trim p) m w = saveNote js fetch p m w \<and>
    updateNote js fetch (trim p) m w = updateNote js fetch p m w \<and>
    getImage js fetch (trim p) w = getImage js fetch p w \<and>
    deleteImage js fetch (trim p) w = deleteImage js fetch p w \<and>
    uploadImageFromUrl js fetch (trim p) u w = uploadImageFromUrl js fetch p u w) \<and>
   ((\<forall>c\<in>set pre. isWhiteSpace c) \<and> (\<forall>c\<in>set post. isWhiteSpace c) \<longrightarrow>
    getNote js fetch (pre @ p @ post) w = getNote js fetch p w \<and>
    getOrCreateNote js fetch (pre @ p @ post) w = getOrCreateNote js fetch p w \<and>
    createNote js fetch (pre @ p @ post) m w = createNote js fetch p m w \<and>
    saveNote js fetch (pre @ p @ post) m w = saveNote js fetch p m w \<and>
    updateNote js fetch (pre @ p @ post) m w = updateNote js fetch p m w \<and>
    getImage js fetch (pre @ p @ post) w = getImage js fetch p w \<and>
    deleteImage js fetch (pre @ p @ post) w = deleteImage js fetch p w \<and>
    uploadImageFromUrl js fetch (pre @ p @ post) u w = uploadImageFromUrl js fetch p u w) \<and>
   normalizePhrase (normalizePhrase p) = normalizePhrase p \<and>
   getNote js fetch (normalizePhrase p) w = getNote js fetch p w"
proof (intro conjI impI)
  have a: "normalizePhrase (trim p) = normalizePhrase p"
    by (simp add: normalizePhrase_def trim_idem)
  note trimmed = operations_depend_on_key [OF a, of js fetch]
  show "getNote js fetch (trim p) w = getNote js fetch p w"
    and "getOrCreateNote js fetch (trim p) w = getOrCreateNote js fetch p w"
    and "createNote js fetch (trim p) m w = createNote js fetch p m w"
    and "saveNote js fetch (trim p) m w = saveNote js fetch p m w"
    and "updateNote js fetch (trim p) m w = updateNote js fetch p m w"
    and "getImage js fetch (trim p) w = getImage js fetch p w"
    and "deleteImage js fetch (trim p) w = deleteImage js fetch p w"
    and "uploadImageFromUrl js fetch (trim p) u w = uploadImageFromUrl js fetch p u w"
    by (rule trimmed)+
  show "normalizePhrase (normalizePhrase p) = normalizePhrase p"
    by (rule normalizePhrase_idem)
  show "getNote js fetch (normalizePhrase p) w = getNote js fetch p w"
    by (rule operations_depend_on_key(1) [OF normalizePhrase_idem])
next
  assume "(\<forall>c\<in>set pre. isWhiteSpace c) \<and> (\<forall>c\<in>set post. isWhiteSpace c)"
  then have b: "normalizePhrase (pre @ p @ post) = normalizePhrase p"
    by (simp add: normalizePhrase_padded)
  note padded = operations_depend_on_key [OF b, of js fetch]
  show "getNote js fetch (pre @ p @ post) w = getNote js fetch p w"
    and "getOrCreateNote js fetch (pre @ p @ post) w = getOrCreateNote js fetch p w"
    and "createNote js fetch (pre @ p @ post) m w = createNote js fetch p m w"
    and "saveNote js fetch (pre @ p @ post) m w = saveNote js fetch p m w"
    and "updateNote js fetch (pre @ p @ post) m w = updateNote js fetch p m w"
    and "getImage js fetch (pre @ p @ post) w = getImage js fetch p w"
    and "deleteImage js fetch (pre @ p @ post) w = deleteImage js fetch p w"
    and "uploadImageFromUrl js fetch (pre @ p @ post) u w = uploadImageFromUrl js fetch p u w"
    by (rule padded)+
qed

theorem operations_normalize_phrase_witness:
  "isWhiteSpace (CHR 0x09) \<and> isWhiteSpace (CHR '' '') \<and> isWhiteSpace (CHR 0x0A) \<and>
   getOrCreateNote demo_js scripted ([CHR 0x09, CHR '' ''] @ ''abc'' @ [CHR 0x0A])
     [Inr (text_response 200 ''OK'' [])] =
   getOrCreateNote demo_js scripted ''abc'' [Inr (text_response 200 ''OK'' [])] \<and>
   getOrCreateNote demo_js scripted ''abc'' [Inr (text_response 200 ''OK'' [])] =
     (Inr (JObj []), [])"
proof -
  have ws: "(\<forall>c\<in>set [CHR 0x09, CHR '' '']. isWhiteSpace c) \<and>
      (\<forall>c\<in>set [CHR 0x0A]. isWhiteSpace c)"
    by (simp add: isWhiteSpace_def)
  note eq = operations_normalize_phrase [where js = demo_js and fetch = scripted
      and p = "''abc''" and w = "[Inr (text_response 200 ''OK'' [])]"
      and pre = "[CHR 0x09, CHR '' '']" and post = "[CHR 0x0A]",
      THEN conjunct2, THEN conjunct1, THEN mp, OF ws, THEN conjunct2, THEN conjunct1]
  have ev: "getOrCreateNote demo_js scripted ''abc'' [Inr (text_response 200 ''OK'' [])] =
     (Inr (JObj []), [])"
    by (simp add: eval_defs)
  have "isWhiteSpace (CHR 0x09)" "isWhiteSpace (CHR '' '')" "isWhiteSpace (CHR 0x0A)"
    by (simp_all add: isWhiteSpace_def)
  with eq ev show ?thesis by (intro conjI)
qed

section \<open>The autosave effect\<close>

lemma tracked_owned: "tracked s \<Longrightarrow> owned s"
  by (auto simp: tracked_def owned_def split: list.splits)

lemma run_cleanup_owned:
  "owned s \<Longrightarrow> run_cleanup s = s\<lparr>timers := []\<rparr>"
  by (auto simp: owned_def run_cleanup_def clear_saveTimeout_def clearTimeout_def
      timer_truthy_def split: list.splits)

lemma autosave_effect_clean:
  "timers s = [] \<Longrightarrow>
   autosave_effect s =
     (if should_save s
      then s\<lparr>timers := [new_timer s], next_timer := Suc (next_timer s),
             saveTimeout := Some (Suc (next_timer s)), cleanup := True\<rparr>
      else s\<lparr>cleanup := False\<rparr>)"
  by (auto simp: autosave_effect_def should_save_def new_timer_def clear_saveTimeout_def
      clearTimeout_def setTimeout_def Let_def split: option.splits)

lemma should_save_update [simp]:
  "should_save (s\<lparr>timers := ts\<rparr>) = should_save s"
  "should_save (s\<lparr>next_timer := i\<rparr>) = should_save s"
  "should_save (s\<lparr>saveTimeout := r\<rparr>) = should_save s"
  "should_save (s\<lparr>cleanup := b\<rparr>) = should_save s"
  "should_save (s\<lparr>loading := l\<rparr>) = should_save s"
  "should_save (s\<lparr>inflight := f\<rparr>) = should_save s"
  "should_save (s\<lparr>issued := f\<rparr>) = should_save s"
  "should_save (s\<lparr>now := c\<rparr>) = should_save s"
  by (simp_all add: should_save_def valid_def split: option.splits)

lemma new_timer_timers [simp]: "new_timer (s\<lparr>timers := ts\<rparr>) = new_timer s"
  by (simp add: new_timer_def)

lemma rerun_effect_owned:
  "owned s \<Longrightarrow>
   rerun_effect s =
     (if should_save s
      then s\<lparr>timers := [new_timer s], next_timer := Suc (next_timer s),
             saveTimeout := Some (Suc (next_timer s)), cleanup := True\<rparr>
      else s\<lparr>timers := [], cleanup := False\<rparr>)"
  by (simp add: rerun_effect_def run_cleanup_owned autosave_effect_clean)

lemma tracked_rerun_effect: "owned s \<Longrightarrow> tracked (rerun_effect s)"
  by (simp add: rerun_effect_owned tracked_def new_timer_def)

lemma setNote_object:
  "\<not> primitive n \<Longrightarrow> setNote n s = (s\<lparr>current_note := Some n\<rparr>, True)"
  by (cases n) (simp_all add: setNote_def note_state_def)

lemma has_property_object: "get_prop n name = Some v \<Longrightarrow> \<not> primitive n"
  by (cases n) simp_all

lemma owned_setNote: "owned (fst (setNote n s)) = owned s"
  by (simp add: setNote_def owned_def split: list.splits)

lemma tracked_setNote_unchanged: "\<not> snd (setNote n s) \<Longrightarrow> fst (setNote n s) = s"
  by (simp add: setNote_def split: if_splits)

lemma tracked_loading [simp]: "tracked (s\<lparr>loading := l\<rparr>) = tracked s"
  by (simp add: tracked_def split: list.splits)

lemma tracked_inflight [simp]: "tracked (s\<lparr>inflight := i\<rparr>) = tracked s"
  by (simp add: tracked_def split: list.splits)

lemma tracked_now [simp]: "tracked (s\<lparr>now := c\<rparr>) = tracked s"
  by (simp add: tracked_def split: list.splits)

lemma owned_update [simp]:
  "owned (s\<lparr>message := m\<rparr>) = owned s"
  "owned (s\<lparr>phrase := p\<rparr>) = owned s"
  "owned (s\<lparr>current_note := n\<rparr>) = owned s"
  "owned (s\<lparr>loading := l\<rparr>) = owned s"
  "owned (s\<lparr>inflight := i\<rparr>) = owned s"
  "owned (s\<lparr>now := c\<rparr>) = owned s"
  by (simp_all add: owned_def split: list.splits)

lemma step_Advance_owned:
  "owned s \<Longrightarrow>
   step (Advance d) s =
     (case timers s of
        [] \<Rightarrow> s\<lparr>now := now s + d\<rparr>
      | t # ts \<Rightarrow>
         (if due t \<le> now s + d
          then s\<lparr>timers := [], loading := Some ''autosave'',
                 inflight := inflight s @ [(timer_phrase t, timer_message t)],
                 issued := issued s @ [(timer_phrase t, timer_message t)],
                 now := now s + d\<rparr>
          else s\<lparr>now := now s + d\<rparr>))"
  by (auto simp: owned_def fire_def split: list.splits)

text \<open>Every event keeps the timers tracked, and they are tracked on the mounted screen.\<close>

lemma tracked_mounted: "tracked mounted"
  by (simp add: tracked_def mounted_def)

lemma tracked_step: "tracked s \<Longrightarrow> tracked (step e s)"
proof (cases e)
  case (Edit m)
  assume "tracked s"
  then show ?thesis
    using Edit by (auto dest!: tracked_owned intro!: tracked_rerun_effect)
next
  case (SetPhrase p)
  assume t: "tracked s"
  show ?thesis
  proof (cases "valid (s\<lparr>phrase := p\<rparr>) = valid s")
    case True
    with t show ?thesis
      using SetPhrase
      by (auto simp: tracked_def should_save_def valid_def Let_def
          split: list.splits option.splits)
  next
    case False
    with t show ?thesis
      using SetPhrase by (auto simp: Let_def dest!: tracked_owned intro!: tracked_rerun_effect)
  qed
next
  case (Loaded m rest)
  assume t: "tracked s"
  have "owned (fst (setNote (JObj ((''message'', JStr m) # rest)) s))"
    using owned_setNote tracked_owned [OF t] by simp
  then show ?thesis
    using Loaded by (auto simp: setNote_object Let_def intro!: tracked_rerun_effect)
next
  case (Advance d)
  assume t: "tracked s"
  then have "owned s" by (rule tracked_owned)
  with t show ?thesis
    using Advance
    by (auto simp: fire_def tracked_def should_save_def valid_def
        split: list.splits option.splits)
next
  case (Resolved k r)
  assume t: "tracked s"
  show ?thesis
  proof (cases r)
    case (Inl e)
    with t show ?thesis
      using Resolved by (simp add: Let_def)
  next
    case (Inr updated)
    define s' where "s' = s\<lparr>inflight := take k (inflight s) @ drop (Suc k) (inflight s)\<rparr>"
    have t': "tracked s'"
      using t by (simp add: s'_def)
    obtain s1 changed where sn: "setNote updated s' = (s1, changed)"
      by (cases "setNote updated s'")
    have o1: "owned s1"
      using owned_setNote [of updated s'] sn tracked_owned [OF t'] by simp
    have same: "s1 = s'" if "\<not> changed"
      using tracked_setNote_unchanged [of updated s'] sn that by simp
    show ?thesis
      using Resolved Inr t t' o1 same sn
      by (auto simp: Let_def s'_def [symmetric] intro!: tracked_rerun_effect)
  qed
qed

lemma tracked_run: "tracked s \<Longrightarrow> tracked (run es s)"
  unfolding run_def by (induction es arbitrary: s) (simp_all add: tracked_step)

lemma tracked_reachable: "tracked (run es mounted)"
  by (rule tracked_run [OF tracked_mounted])

lemma loaded_screen_eq:
  "loaded_screen =
     \<lparr>phrase = ''abc'', current_note = Some hello_note, message = ''hello'', loading = None,
      saveTimeout = None, cleanup = False, timers = [], next_timer = 0, now = 0,
      inflight = [], issued = []\<rparr>"
  by (simp add: loaded_screen_def screen_defs)

lemma tracked_loaded_screen: "tracked loaded_screen"
  unfolding loaded_screen_def by (rule tracked_run [OF tracked_mounted])

lemma step_Edit_owned:
  "owned s \<Longrightarrow> m \<noteq> message s \<Longrightarrow>
   step (Edit m) s =
     (if should_save (s\<lparr>message := m\<rparr>)
      then s\<lparr>message := m, timers := [new_timer (s\<lparr>message := m\<rparr>)],
             next_timer := Suc (next_timer s), saveTimeout := Some (Suc (next_timer s)),
             cleanup := True\<rparr>
      else s\<lparr>message := m, timers := [], cleanup := False\<rparr>)"
  by (simp add: rerun_effect_owned)

lemma step_Edit_frame:
  assumes "owned s"
  shows "phrase (step (Edit m) s) = phrase s"
    and "current_note (step (Edit m) s) = current_note s"
    and "message (step (Edit m) s) = m"
    and "now (step (Edit m) s) = now s"
    and "issued (step (Edit m) s) = issued s"
    and "inflight (step (Edit m) s) = inflight s"
  using assms by (simp_all add: rerun_effect_owned)

lemma step_Edit_due:
  assumes "owned s" and "m \<noteq> message s \<or> timers s = []"
  shows "\<forall>t\<in>set (timers (step (Edit m) s)). due t = now s + 2000"
  using assms by (auto simp: rerun_effect_owned new_timer_def)

lemma step_Advance_quiet:
  assumes "\<forall>t\<in>set (timers s). due t = now s + 2000" and "d < 2000"
  shows "step (Advance d) s = s\<lparr>now := now s + d\<rparr>"
proof -
  have "filter (\<lambda>t. due t \<le> now s + d) (timers s) = []"
    using assms by (auto simp: filter_empty_conv)
  then show ?thesis by simp
qed

subsection \<open>No-op on the confirmed value\<close>

text \<open>
  Claim C5. When the screen holds a note and the message is set to the string that is the
  message of that note, the effect creates no timer (no call of \<^verbatim>\<open>setTimeout\<close>: the
  pending timers are among those before, the identifier counter is unchanged) and starts
  no write. On a screen whose timers are tracked, which every screen reached from the
  mounted one is, no timer is pending afterwards, and no write starts however long one
  waits.
\<close>

theorem autosave_noop_on_confirmed_value:
  assumes "current_note s = Some n" and "get_prop n ''message'' = Some (JStr m)"
  shows "set (timers (step (Edit m) s)) \<subseteq> set (timers s) \<and>
    next_timer (step (Edit m) s) = next_timer s \<and>
    issued (step (Edit m) s) = issued s \<and>
    inflight (step (Edit m) s) = inflight s \<and>
    (tracked s \<longrightarrow>
       timers (step (Edit m) s) = [] \<and>
       (\<forall>d. issued (step (Advance d) (step (Edit m) s)) = issued s \<and>
            inflight (step (Advance d) (step (Edit m) s)) = inflight s))"
proof (intro conjI impI)
  show "set (timers (step (Edit m) s)) \<subseteq> set (timers s)"
    and "next_timer (step (Edit m) s) = next_timer s"
    and "issued (step (Edit m) s) = issued s"
    and "inflight (step (Edit m) s) = inflight s"
    using assms
    by (auto simp: rerun_effect_def run_cleanup_def autosave_effect_def clear_saveTimeout_def
        clearTimeout_def)
next
  assume t: "tracked s"
  show none: "timers (step (Edit m) s) = []"
  proof (cases "m = message s")
    case True
    with t assms show ?thesis
      by (auto simp: tracked_def should_save_def split: list.splits)
  next
    case False
    have "owned s" using t by (rule tracked_owned)
    with False assms show ?thesis
      by (simp add: rerun_effect_owned should_save_def)
  qed
  have "issued (step (Edit m) s) = issued s" and "inflight (step (Edit m) s) = inflight s"
    using tracked_owned [OF t] by (rule step_Edit_frame)+
  with none show "\<forall>d. issued (step (Advance d) (step (Edit m) s)) = issued s \<and>
      inflight (step (Advance d) (step (Edit m) s)) = inflight s"
    by simp
qed

theorem autosave_noop_on_confirmed_value_witness:
  "current_note (step (Edit ''hello, world'') loaded_screen) = Some hello_note \<and>
   get_prop hello_note ''message'' = Some (JStr ''hello'') \<and>
   tracked (step (Edit ''hello, world'') loaded_screen) \<and>
   timers (step (Edit ''hello, world'') loaded_screen) =
     [\<lparr>timer_id = 1, due = 2000, timer_phrase = ''abc'', timer_message = ''hello, world''\<rparr>] \<and>
   timers (step (Edit ''hello'') (step (Edit ''hello, world'') loaded_screen)) = [] \<and>
   issued (step (Advance 5000)
     (step (Edit ''hello'') (step (Edit ''hello, world'') loaded_screen))) = []"
proof -
  define s where "s = step (Edit ''hello, world'') loaded_screen"
  have n: "current_note s = Some hello_note"
    by (simp add: s_def loaded_screen_eq screen_defs)
  have g: "get_prop hello_note ''message'' = Some (JStr ''hello'')"
    by (simp add: hello_note_def)
  have t: "tracked s"
    unfolding s_def by (rule tracked_step [OF tracked_loaded_screen])
  have p: "timers s =
      [\<lparr>timer_id = 1, due = 2000, timer_phrase = ''abc'', timer_message = ''hello, world''\<rparr>]"
    by (simp add: s_def loaded_screen_eq screen_defs)
  have i: "issued s = []"
    by (simp add: s_def loaded_screen_eq screen_defs)
  note c = autosave_noop_on_confirmed_value [OF n g, THEN conjunct2, THEN conjunct2,
      THEN conjunct2, THEN conjunct2, THEN mp, OF t]
  note c1 = c [THEN conjunct1]
  note c2 = c [THEN conjunct2, THEN spec, of 5000, THEN conjunct1, unfolded i]
  from n g t p c1 c2 show ?thesis
    unfolding s_def by (intro conjI)
qed

subsection \<open>Debounce\<close>

lemma step_Advance_fires:
  assumes "timers s = [t]" and "due t \<le> now s + d"
  shows "step (Advance d) s =
     s\<lparr>timers := [], loading := Some ''autosave'',
       inflight := inflight s @ [(timer_phrase t, timer_message t)],
       issued := issued s @ [(timer_phrase t, timer_message t)],
       now := now s + d\<rparr>"
  using assms by (simp add: fire_def)

text \<open>
  Claim C3. On a screen that holds a note, has a valid passphrase and no pending timer,
  the note's message not being \<^verbatim>\<open>"xyz"\<close>: setting the message to \<^verbatim>\<open>"x"\<close>, \<^verbatim>\<open>"xy"\<close>
  and \<^verbatim>\<open>"xyz"\<close> with less than 2000 ms between one edit and the next starts no write
  up to the third edit; after the third edit exactly one timer is pending, due 2000 ms
  after that edit and carrying \<^verbatim>\<open>"xyz"\<close> (the timers of the earlier edits are gone); and
  once 2000 ms have passed, exactly one write has started, with the payload \<^verbatim>\<open>"xyz"\<close>,
  and no timer is left. When that write then succeeds with a note whose message is
  \<^verbatim>\<open>"xyz"\<close>, no further write starts however long one waits.
\<close>

theorem autosave_debounce_coalesces:
  assumes loaded: "current_note s = Some n" and held: "truthy (Some n)"
    and key_ok: "valid s"
    and idle: "timers s = []"
    and differs: "get_prop n ''message'' \<noteq> Some (JStr ''xyz'')"
    and d1: "d1 < 2000" and d2: "d2 < 2000" and d3: "2000 \<le> d3"
  shows "issued (run [Edit ''x'', Advance d1, Edit ''xy'', Advance d2, Edit ''xyz''] s) = issued s \<and>
    (\<exists>i. timers (run [Edit ''x'', Advance d1, Edit ''xy'', Advance d2, Edit ''xyz''] s) =
       [\<lparr>timer_id = i, due = now s + d1 + d2 + 2000, timer_phrase = phrase s,
         timer_message = ''xyz''\<rparr>]) \<and>
    issued (run [Edit ''x'', Advance d1, Edit ''xy'', Advance d2, Edit ''xyz'', Advance d3] s) =
      issued s @ [(phrase s, ''xyz'')] \<and>
    timers (run [Edit ''x'', Advance d1, Edit ''xy'', Advance d2, Edit ''xyz'', Advance d3] s) = [] \<and>
    (\<forall>updated d4. get_prop updated ''message'' = Some (JStr ''xyz'') \<longrightarrow>
       issued (run [Edit ''x'', Advance d1, Edit ''xy'', Advance d2, Edit ''xyz'', Advance d3,
                    Resolved (length (inflight s)) (Inr updated), Advance d4] s) =
         issued s @ [(phrase s, ''xyz'')])"
proof -
  define s1 where "s1 = step (Edit ''x'') s"
  define s2 where "s2 = step (Advance d1) s1"
  define s3 where "s3 = step (Edit ''xy'') s2"
  define s4 where "s4 = step (Advance d2) s3"
  define s5 where "s5 = step (Edit ''xyz'') s4"
  define s6 where "s6 = step (Advance d3) s5"
  have t0: "tracked s"
    using idle by (simp add: tracked_def)
  then have o0: "owned s" by (rule tracked_owned)
  have t1: "tracked s1" unfolding s1_def using t0 by (rule tracked_step)
  have f1: "phrase s1 = phrase s" "current_note s1 = current_note s" "message s1 = ''x''"
    "now s1 = now s" "issued s1 = issued s" "inflight s1 = inflight s"
    unfolding s1_def using o0 by (rule step_Edit_frame)+
  have q1: "\<forall>t\<in>set (timers s1). due t = now s1 + 2000"
    unfolding s1_def f1(4) [unfolded s1_def] using o0 idle by (intro step_Edit_due) simp_all
  have e2: "s2 = s1\<lparr>now := now s1 + d1\<rparr>"
    unfolding s2_def using q1 d1 by (rule step_Advance_quiet)
  have t2: "tracked s2" unfolding s2_def using t1 by (rule tracked_step)
  then have o2: "owned s2" by (rule tracked_owned)
  have t3: "tracked s3" unfolding s3_def using t2 by (rule tracked_step)
  have f3: "phrase s3 = phrase s2" "current_note s3 = current_note s2" "message s3 = ''xy''"
    "now s3 = now s2" "issued s3 = issued s2" "inflight s3 = inflight s2"
    unfolding s3_def using o2 by (rule step_Edit_frame)+
  have "''xy'' \<noteq> message s2"
    by (simp add: e2 f1)
  then have q3: "\<forall>t\<in>set (timers s3). due t = now s3 + 2000"
    unfolding s3_def f3(4) [unfolded s3_def] using o2 by (intro step_Edit_due) simp_all
  have e4: "s4 = s3\<lparr>now := now s3 + d2\<rparr>"
    unfolding s4_def using q3 d2 by (rule step_Advance_quiet)
  have t4: "tracked s4" unfolding s4_def using t3 by (rule tracked_step)
  then have o4: "owned s4" by (rule tracked_owned)
  have m4: "''xyz'' \<noteq> message s4"
    by (simp add: e4 f3)
  have frame4: "phrase s4 = phrase s" "current_note s4 = Some n" "now s4 = now s + d1 + d2"
    "issued s4 = issued s"
    by (simp_all add: e4 f3 e2 f1 loaded)
  have save: "should_save (s4\<lparr>message := ''xyz''\<rparr>)"
    using key_ok differs held by (simp add: should_save_def frame4 valid_def)
  have e5: "s5 = s4\<lparr>message := ''xyz'', timers := [new_timer (s4\<lparr>message := ''xyz''\<rparr>)],
      next_timer := Suc (next_timer s4), saveTimeout := Some (Suc (next_timer s4)),
      cleanup := True\<rparr>"
    unfolding s5_def using step_Edit_owned [OF o4 m4] save by simp
  have i5: "issued s5 = issued s"
    by (simp add: e5 frame4)
  have l5: "inflight s5 = inflight s"
    by (simp add: e5 e4 f3 e2 f1)
  have p5: "timers s5 =
      [\<lparr>timer_id = Suc (next_timer s4), due = now s + d1 + d2 + 2000, timer_phrase = phrase s,
        timer_message = ''xyz''\<rparr>]"
    by (simp add: e5 new_timer_def frame4)
  have "due (new_timer (s4\<lparr>message := ''xyz''\<rparr>)) \<le> now s5 + d3"
    using d3 by (simp add: e5 new_timer_def)
  with e5 have e6: "s6 = s5\<lparr>timers := [], loading := Some ''autosave'',
      inflight := inflight s5 @ [(phrase s, ''xyz'')],
      issued := issued s5 @ [(phrase s, ''xyz'')], now := now s5 + d3\<rparr>"
    unfolding s6_def
    by (subst step_Advance_fires [where t = "new_timer (s4\<lparr>message := ''xyz''\<rparr>)"])
      (simp_all add: new_timer_def frame4)
  have r5: "run [Edit ''x'', Advance d1, Edit ''xy'', Advance d2, Edit ''xyz''] s = s5"
    by (simp add: run_def s1_def s2_def s3_def s4_def s5_def del: step.simps)
  have r6: "run [Edit ''x'', Advance d1, Edit ''xy'', Advance d2, Edit ''xyz'', Advance d3] s = s6"
    by (simp add: run_def s1_def s2_def s3_def s4_def s5_def s6_def del: step.simps)
  have t6: "tracked s6"
    unfolding s6_def s5_def using t4 by (intro tracked_step)
  then have o6: "owned s6" by (rule tracked_owned)
  have after: "issued (step (Advance d4) (step (Resolved (length (inflight s)) (Inr updated)) s6)) =
      issued s @ [(phrase s, ''xyz'')]"
    if echo: "get_prop updated ''message'' = Some (JStr ''xyz'')" for updated :: "json" and d4
  proof -
    define s6' where "s6' = s6\<lparr>inflight := take (length (inflight s)) (inflight s6) @
        drop (Suc (length (inflight s))) (inflight s6),
      current_note := Some updated, loading := None\<rparr>"
    have k: "length (inflight s) < length (inflight s6)"
      by (simp add: e6 l5)
    have o': "owned s6'"
      using o6 by (simp add: s6'_def)
    have "message s6' = ''xyz''"
      by (simp add: s6'_def e6 e5)
    with echo have quiet: "\<not> should_save s6'"
      by (simp add: should_save_def s6'_def)
    have "step (Resolved (length (inflight s)) (Inr updated)) s6 = rerun_effect s6'"
      using k by (simp add: s6'_def Let_def setNote_object [OF has_property_object [OF echo]])
    also have "\<dots> = s6'\<lparr>timers := [], cleanup := False\<rparr>"
      using quiet by (simp add: rerun_effect_owned [OF o'])
    finally show ?thesis
      by (simp add: s6'_def e6 i5)
  qed
  have r8: "run [Edit ''x'', Advance d1, Edit ''xy'', Advance d2, Edit ''xyz'', Advance d3,
      Resolved (length (inflight s)) (Inr updated), Advance d4] s =
    step (Advance d4) (step (Resolved (length (inflight s)) (Inr updated)) s6)" for updated d4
    by (simp add: run_def s1_def s2_def s3_def s4_def s5_def s6_def del: step.simps)
  show ?thesis
    unfolding r5 r6 r8 using i5 p5 after by (simp add: e6 i5)
qed

theorem autosave_debounce_coalesces_witness:
  "current_note loaded_screen = Some hello_note \<and> truthy (Some hello_note) \<and>
   valid loaded_screen \<and>
   timers loaded_screen = [] \<and> get_prop hello_note ''message'' \<noteq> Some (JStr ''xyz'') \<and>
   (300::nat) < 2000 \<and> (1999::nat) < 2000 \<and> (2000::nat) \<le> 2000 \<and>
   issued (run [Edit ''x'', Advance 300, Edit ''xy'', Advance 1999, Edit ''xyz'', Advance 2000]
     loaded_screen) = [(''abc'', ''xyz'')] \<and>
   get_prop (JObj [(''message'', JStr ''xyz'')] :: json) ''message'' = Some (JStr ''xyz'') \<and>
   issued (run [Edit ''x'', Advance 300, Edit ''xy'', Advance 1999, Edit ''xyz'', Advance 2000,
                Resolved 0 (Inr (JObj [(''message'', JStr ''xyz'')])), Advance 60000]
     loaded_screen) = [(''abc'', ''xyz'')]"
proof -
  have h: "current_note loaded_screen = Some hello_note" "truthy (Some hello_note)"
    "valid loaded_screen"
    "timers loaded_screen = []" "get_prop hello_note ''message'' \<noteq> Some (JStr ''xyz'')"
    "(300::nat) < 2000" "(1999::nat) < 2000" "(2000::nat) \<le> 2000"
    by (simp_all add: loaded_screen_eq valid_def hello_note_def)
  have i: "issued loaded_screen = []" and p: "phrase loaded_screen = ''abc''"
    and l: "length (inflight loaded_screen) = 0"
    by (simp_all add: loaded_screen_eq)
  have echo: "get_prop (JObj [(''message'', JStr ''xyz'')] :: json) ''message'' =
      Some (JStr ''xyz'')"
    by simp
  note c = autosave_debounce_coalesces [OF h, THEN conjunct2, THEN conjunct2, THEN conjunct1,
      unfolded i p append_Nil]
  note q = autosave_debounce_coalesces [OF h, THEN conjunct2, THEN conjunct2, THEN conjunct2,
      THEN conjunct2, THEN spec, THEN spec, THEN mp, OF echo, of 60000,
      unfolded i p l append_Nil]
  from h c echo q show ?thesis by (intro conjI)
qed

subsection \<open>Writes in flight\<close>

text \<open>
  Claim C4, as the code has it. The screen has no saving state. On a screen whose timers
  are tracked:
  \<^item> an edit that the effect has to save (a note is held, the passphrase is valid, the new
    message is not the note's) leaves exactly one pending timer, due 2000 ms after the
    edit and carrying the new message, whatever writes are in flight, and leaves those
    writes as they are: the edit is registered at once and not dropped;
  \<^item> the timer that comes due starts its write whatever writes are in flight, one more
    write being in flight afterwards;
  \<^item> when a write in flight succeeds with an object and the message of the screen is not
    the message of that note, the pending timer is replaced by one due 2000 ms after the
    resolution, carrying the message of the screen; when a write in flight fails, the
    pending timers stay as they are.
\<close>

theorem autosave_no_saving_state:
  assumes "tracked s"
  shows "(m \<noteq> message s \<and> should_save (s\<lparr>message := m\<rparr>) \<longrightarrow>
       timers (step (Edit m) s) =
         [\<lparr>timer_id = Suc (next_timer s), due = now s + 2000, timer_phrase = phrase s,
           timer_message = m\<rparr>] \<and>
       inflight (step (Edit m) s) = inflight s) \<and>
    (\<forall>t. timers s = [t] \<and> due t \<le> now s + d \<longrightarrow>
       inflight (step (Advance d) s) = inflight s @ [(timer_phrase t, timer_message t)] \<and>
       issued (step (Advance d) s) = issued s @ [(timer_phrase t, timer_message t)] \<and>
       length (inflight (step (Advance d) s)) = Suc (length (inflight s))) \<and>
    (k < length (inflight s) \<and> \<not> primitive updated \<and>
     should_save (s\<lparr>current_note := Some updated\<rparr>) \<longrightarrow>
       timers (step (Resolved k (Inr updated)) s) =
         [\<lparr>timer_id = Suc (next_timer s), due = now s + 2000, timer_phrase = phrase s,
           timer_message = message s\<rparr>]) \<and>
    timers (step (Resolved k (Inl e)) s) = timers s"
proof (intro conjI impI allI)
  have o: "owned s" using assms by (rule tracked_owned)
  {
    assume h: "m \<noteq> message s \<and> should_save (s\<lparr>message := m\<rparr>)"
    with o show "timers (step (Edit m) s) =
        [\<lparr>timer_id = Suc (next_timer s), due = now s + 2000, timer_phrase = phrase s,
          timer_message = m\<rparr>]"
      by (simp add: rerun_effect_owned new_timer_def)
    from o show "inflight (step (Edit m) s) = inflight s"
      by (rule step_Edit_frame)
  }
  {
    fix t
    assume h: "timers s = [t] \<and> due t \<le> now s + d"
    then show "inflight (step (Advance d) s) = inflight s @ [(timer_phrase t, timer_message t)]"
      and "issued (step (Advance d) s) = issued s @ [(timer_phrase t, timer_message t)]"
      and "length (inflight (step (Advance d) s)) = Suc (length (inflight s))"
      by (simp_all add: fire_def)
  }
  {
    assume h: "k < length (inflight s) \<and> \<not> primitive updated \<and>
      should_save (s\<lparr>current_note := Some updated\<rparr>)"
    have "should_save (s\<lparr>inflight := take k (inflight s) @ drop (Suc k) (inflight s),
        current_note := Some updated, loading := None\<rparr>) =
      should_save (s\<lparr>current_note := Some updated\<rparr>)"
      by (simp add: should_save_def valid_def)
    with h o show "timers (step (Resolved k (Inr updated)) s) =
        [\<lparr>timer_id = Suc (next_timer s), due = now s + 2000, timer_phrase = phrase s,
          timer_message = message s\<rparr>]"
      by (simp add: rerun_effect_owned new_timer_def Let_def setNote_object)
  }
  show "timers (step (Resolved k (Inl e)) s) = timers s"
    by (simp add: Let_def)
qed

theorem autosave_no_saving_state_witness:
  "tracked (run [Edit ''b'', Advance 2000] loaded_screen) \<and>
   inflight (run [Edit ''b'', Advance 2000] loaded_screen) = [(''abc'', ''b'')] \<and>
   ''bc'' \<noteq> message (run [Edit ''b'', Advance 2000] loaded_screen) \<and>
   should_save ((run [Edit ''b'', Advance 2000] loaded_screen)\<lparr>message := ''bc''\<rparr>) \<and>
   timers (step (Edit ''bc'') (run [Edit ''b'', Advance 2000] loaded_screen)) =
     [\<lparr>timer_id = 2, due = 4000, timer_phrase = ''abc'', timer_message = ''bc''\<rparr>] \<and>
   inflight (step (Edit ''bc'') (run [Edit ''b'', Advance 2000] loaded_screen)) =
     [(''abc'', ''b'')] \<and>
   tracked (run [Edit ''b'', Advance 2000, Edit ''bc''] loaded_screen) \<and>
   inflight (step (Advance 2500) (run [Edit ''b'', Advance 2000, Edit ''bc''] loaded_screen)) =
     [(''abc'', ''b''), (''abc'', ''bc'')] \<and>
   tracked (run [Edit ''b'', Advance 2000, Edit ''bc'', Advance 500] loaded_screen) \<and>
   timers (step (Resolved 0 (Inr (JObj [(''message'', JStr ''b'')])))
       (run [Edit ''b'', Advance 2000, Edit ''bc'', Advance 500] loaded_screen)) =
     [\<lparr>timer_id = 3, due = 4500, timer_phrase = ''abc'', timer_message = ''bc''\<rparr>] \<and>
   timers (step (Resolved 0 (Inl (Rejected ''Network request failed'')))
       (run [Edit ''b'', Advance 2000, Edit ''bc'', Advance 500] loaded_screen)) =
     [\<lparr>timer_id = 2, due = 4000, timer_phrase = ''abc'', timer_message = ''bc''\<rparr>]"
proof -
  define sa where "sa = run [Edit ''b'', Advance 2000] loaded_screen"
  define sb where "sb = run [Edit ''b'', Advance 2000, Edit ''bc''] loaded_screen"
  define sc where "sc = run [Edit ''b'', Advance 2000, Edit ''bc'', Advance 500] loaded_screen"
  define t where
    "t = \<lparr>timer_id = 2, due = 4000, timer_phrase = ''abc'', timer_message = ''bc''\<rparr>"
  define saved where "saved = (JObj [(''message'', JStr ''b'')] :: json)"
  have tra: "tracked sa" and trb: "tracked sb" and trc: "tracked sc"
    unfolding sa_def sb_def sc_def by (rule tracked_run [OF tracked_loaded_screen])+
  have sa: "sa = \<lparr>phrase = ''abc'', current_note = Some hello_note, message = ''b'',
      loading = Some ''autosave'', saveTimeout = Some 1, cleanup = True, timers = [],
      next_timer = 1, now = 2000, inflight = [(''abc'', ''b'')], issued = [(''abc'', ''b'')]\<rparr>"
    by (simp add: sa_def loaded_screen_eq screen_defs)
  have sb: "sb = sa\<lparr>message := ''bc'', timers := [t], next_timer := 2, saveTimeout := Some 2\<rparr>"
    by (simp add: sb_def sa_def t_def loaded_screen_eq screen_defs)
  have sc: "sc = sb\<lparr>now := 2500\<rparr>"
    by (simp add: sc_def sb_def sa_def t_def loaded_screen_eq screen_defs)
  have ha: "''bc'' \<noteq> message sa \<and> should_save (sa\<lparr>message := ''bc''\<rparr>)"
    by (simp add: sa should_save_def valid_def hello_note_def)
  note edit = autosave_no_saving_state [OF tra, THEN conjunct1, THEN mp, OF ha]
  have hb: "timers sb = [t] \<and> due t \<le> now sb + 2500"
    by (simp add: sb sa t_def)
  note fired = autosave_no_saving_state [OF trb, of _ 2500, THEN conjunct2, THEN conjunct1,
      THEN spec, THEN mp, OF hb, THEN conjunct1]
  have hc: "0 < length (inflight sc) \<and> \<not> primitive saved \<and>
      should_save (sc\<lparr>current_note := Some saved\<rparr>)"
    by (simp add: sc sb sa should_save_def valid_def saved_def)
  note again = autosave_no_saving_state [OF trc, THEN conjunct2, THEN conjunct2,
      THEN conjunct1, THEN mp, OF hc]
  note failed = autosave_no_saving_state [OF trc, of _ _ 0 _ "Rejected ''Network request failed''",
      THEN conjunct2, THEN conjunct2, THEN conjunct2]
  have "tracked sa \<and> inflight sa = [(''abc'', ''b'')] \<and> ''bc'' \<noteq> message sa \<and>
    should_save (sa\<lparr>message := ''bc''\<rparr>) \<and>
    timers (step (Edit ''bc'') sa) = [t] \<and>
    inflight (step (Edit ''bc'') sa) = [(''abc'', ''b'')] \<and>
    tracked sb \<and>
    inflight (step (Advance 2500) sb) = [(''abc'', ''b''), (''abc'', ''bc'')] \<and>
    tracked sc \<and>
    timers (step (Resolved 0 (Inr saved)) sc) =
      [\<lparr>timer_id = 3, due = 4500, timer_phrase = ''abc'', timer_message = ''bc''\<rparr>] \<and>
    timers (step (Resolved 0 (Inl (Rejected ''Network request failed''))) sc) = [t]"
    using tra trb trc ha edit fired again failed
    by (simp add: sa sb sc t_def del: step.simps)
  then show ?thesis
    unfolding sa_def sb_def sc_def t_def saved_def .
qed

text \<open>
  The claim as the specification words it fails on the code: a first write is started and
  does not resolve, the message is edited, and 2000 ms later the second timer starts a
  second write while the first one is still in flight.
\<close>

theorem autosave_two_writes_in_flight_counterexample:
  "inflight (run [Edit ''a'', Advance 2000] loaded_screen) = [(''abc'', ''a'')] \<and>
   inflight (run [Edit ''a'', Advance 2000, Edit ''ab'', Advance 2000] loaded_screen) =
     [(''abc'', ''a''), (''abc'', ''ab'')] \<and>
   length (inflight (run [Edit ''a'', Advance 2000, Edit ''ab'', Advance 2000] loaded_screen)) = 2"
  by (simp add: loaded_screen_eq screen_defs)

end
